theory Spec2Isabelle
  imports Main
begin

section \<open>The database\<close>

text \<open>
  The keyshare server and the MyIRMA server share one PostgreSQL schema \<^verbatim>\<open>irma\<close>.
  A table is the list of its rows: nothing in the Go sources constrains a table, so the
  model allows any rows and a theorem that needs a key to be unique says so.
  SQL integers and Go's \<^verbatim>\<open>int\<close>/\<^verbatim>\<open>int64\<close> are \<^typ>\<open>int\<close>: PostgreSQL never wraps
  (a value outside its column makes the statement fail, which is one of the failures
  of \<open>db_run\<close> below), and the Go arithmetic of these functions subtracts unix times.
  \<^verbatim>\<open>NULL\<close> is \<^const>\<open>None\<close>; a byte string is a \<^typ>\<open>string\<close>.
\<close>

record user_row =
  u_id :: int
  u_username :: string
  u_language :: string
  u_coredata :: "string option"
  u_last_seen :: int
  u_pin_counter :: int
  u_pin_block_date :: int
  u_delete_on :: "int option"

record email_row =
  e_user_id :: int
  e_email :: string
  e_delete_on :: "int option"

record email_verification_token_row =
  vt_token :: string
  vt_email :: string
  vt_user_id :: int
  vt_expiry :: int

record email_login_token_row =
  lt_token :: string
  lt_email :: string
  lt_expiry :: int

record log_entry_row =
  le_user_id :: int
  le_time :: int
  le_event :: int
  le_param :: "string option"

record tables =
  users :: "user_row list"
  emails :: "email_row list"
  email_verification_tokens :: "email_verification_token_row list"
  email_login_tokens :: "email_login_token_row list"
  log_entry_records :: "log_entry_row list"

text \<open>
  The Go errors. \<open>keyshare_ErrUserNotFound\<close> is the variable of package
  \<^verbatim>\<open>keyshare\<close>, \<open>ErrUserNotFound\<close> the one of package \<^verbatim>\<open>keyshareserver\<close>.
  \<open>ErrDriver\<close> stands for every other error that \<^verbatim>\<open>database/sql\<close> returns,
  \<open>Errorf\<close> for an \<^verbatim>\<open>errors.Errorf\<close> with its format string and number.
\<close>

datatype error =
    ErrUserNotFound
  | ErrUserAlreadyExists
  | ErrInvalidRecord
  | keyshare_ErrUserNotFound
  | ErrEmailNotFound
  | ErrTokenNotFound
  | ErrNoRows
  | ErrDriver
  | Errorf string int

text \<open>
  The state of the database as the Go process sees it: the committed tables, the
  statements the open transaction has executed and not yet committed, the failures the
  driver is going to report (one flag per statement, in order; no flag left means no
  failure), and what \<^verbatim>\<open>server.LogError\<close> has logged.
\<close>

record world =
  committed :: tables
  pending :: "(tables \<Rightarrow> tables) list"
  faults :: "bool list"
  logged :: "error list"

datatype Tx = Tx

text \<open>
  A statement maps the tables it sees to an error of its own, or to the new tables and
  its result (the rows it returns, or the number of rows it affected).
\<close>

type_synonym 'a stmt = "tables \<Rightarrow> error + (tables \<times> 'a)"

definition effect :: "'a stmt \<Rightarrow> tables \<Rightarrow> tables" where
  "effect q t = (case q t of Inl e \<Rightarrow> t | Inr (t', a) \<Rightarrow> t')"

definition tx_view :: "world \<Rightarrow> tables" where
  "tx_view w = foldl (\<lambda>t f. f t) (committed w) (pending w)"

text \<open>
  \<open>db_run q\<close> is \<^verbatim>\<open>db.Exec\<close>/\<^verbatim>\<open>db.Query\<close>: outside a transaction the statement
  commits at once. \<open>tx_run q\<close> is \<^verbatim>\<open>tx.Exec\<close>/\<^verbatim>\<open>tx.Query\<close>: the statement sees
  the committed tables with the transaction's own statements applied, and joins them.
  The errors of \<^verbatim>\<open>Next\<close>, \<^verbatim>\<open>Scan\<close> and \<^verbatim>\<open>RowsAffected\<close> are not told apart from the
  statement's: a failing statement has no effect.
\<close>

definition next_fault :: "world \<Rightarrow> bool \<times> world" where
  "next_fault w =
     (case faults w of [] \<Rightarrow> (False, w) | f # fs \<Rightarrow> (f, w\<lparr>faults := fs\<rparr>))"

definition db_run :: "'a stmt \<Rightarrow> world \<Rightarrow> (error + 'a) \<times> world" where
  "db_run q w =
     (case next_fault w of
        (True, w1) \<Rightarrow> (Inl ErrDriver, w1)
      | (False, w1) \<Rightarrow>
          (case q (committed w1) of
             Inl e \<Rightarrow> (Inl e, w1)
           | Inr (t', a) \<Rightarrow> (Inr a, w1\<lparr>committed := t'\<rparr>)))"

definition tx_run :: "'a stmt \<Rightarrow> world \<Rightarrow> (error + 'a) \<times> world" where
  "tx_run q w =
     (case next_fault w of
        (True, w1) \<Rightarrow> (Inl ErrDriver, w1)
      | (False, w1) \<Rightarrow>
          (case q (tx_view w1) of
             Inl e \<Rightarrow> (Inl e, w1)
           | Inr (t', a) \<Rightarrow> (Inr a, w1\<lparr>pending := pending w1 @ [effect q]\<rparr>)))"

definition Commit :: "world \<Rightarrow> error option \<times> world" where
  "Commit w =
     (case next_fault w of
        (True, w1) \<Rightarrow> (Some ErrDriver, w1\<lparr>pending := []\<rparr>)
      | (False, w1) \<Rightarrow> (None, w1\<lparr>committed := tx_view w1, pending := []\<rparr>))"

definition Rollback :: "world \<Rightarrow> world" where
  "Rollback w = w\<lparr>pending := []\<rparr>"

definition LogError :: "error \<Rightarrow> world \<Rightarrow> world" where
  "LogError e w = w\<lparr>logged := logged w @ [e]\<rparr>"

section \<open>The keyshare server's store (keyshareserver/postgresdb.go)\<close>

definition MAX_PIN_TRIES :: int where
  "MAX_PIN_TRIES = 3"

definition BACKOFF_START :: int where
  "BACKOFF_START = 30"

record keysharePostgresUser =
  Username :: string
  Language :: string
  Coredata :: string
  row_id :: int

text \<open>
  \<^verbatim>\<open>SELECT id, username, language, coredata FROM irma.users
  WHERE username = $1 AND coredata IS NOT NULL\<close>
\<close>

definition sql_select_user :: "string \<Rightarrow> user_row list stmt" where
  "sql_select_user p1 t =
     Inr (t, filter (\<lambda>r. u_username r = p1 \<and> u_coredata r \<noteq> None) (users t))"

text \<open>
  \<open>len\<close> is the length of the fixed-size array \<^verbatim>\<open>Coredata\<close>, whose type is declared
  outside these sources.
\<close>

definition User :: "nat \<Rightarrow> string \<Rightarrow> world \<Rightarrow> (error + keysharePostgresUser) \<times> world" where
  "User len name w =
     (case db_run (sql_select_user name) w of
        (Inl err, w1) \<Rightarrow> (Inl err, w1)
      | (Inr rows, w1) \<Rightarrow>
          (case rows of
             [] \<Rightarrow> (Inl ErrUserNotFound, w1)
           | r # _ \<Rightarrow>
               (let ep = (case u_coredata r of None \<Rightarrow> [] | Some b \<Rightarrow> b)
                in if length ep \<noteq> len then (Inl ErrInvalidRecord, w1)
                   else (Inr \<lparr>Username = u_username r, Language = u_language r,
                              Coredata = ep, row_id = u_id r\<rparr>, w1))))"

text \<open>
  \<^verbatim>\<open>UPDATE irma.users SET pin_counter = pin_counter+1,
  pin_block_date = $1+$2*2^GREATEST(0, pin_counter-$3)
  WHERE id=$4 AND pin_block_date<=$5 AND coredata IS NOT NULL
  RETURNING pin_counter, pin_block_date\<close>

  The right-hand sides of \<^verbatim>\<open>SET\<close> read the row as it was; \<^verbatim>\<open>RETURNING\<close> reads the
  new row. PostgreSQL computes \<^verbatim>\<open>^\<close> in double precision and rounds the sum to the
  column's \<^verbatim>\<open>BIGINT\<close>; the model computes it exactly, which is the same value as long as
  the block date stays below \<open>2 ^ 53\<close>.
\<close>

definition sql_update_pincheck :: "int \<Rightarrow> int \<Rightarrow> int \<Rightarrow> int \<Rightarrow> int \<Rightarrow> (int \<times> int) list stmt" where
  "sql_update_pincheck p1 p2 p3 p4 p5 t =
     (let hit = (\<lambda>r. u_id r = p4 \<and> u_pin_block_date r \<le> p5 \<and> u_coredata r \<noteq> None);
          upd = (\<lambda>r. r\<lparr>u_pin_counter := u_pin_counter r + 1,
                        u_pin_block_date := p1 + p2 * 2 ^ nat (max 0 (u_pin_counter r - p3))\<rparr>)
      in Inr (t\<lparr>users := map (\<lambda>r. if hit r then upd r else r) (users t)\<rparr>,
              map (\<lambda>r. (u_pin_counter (upd r), u_pin_block_date (upd r)))
                  (filter hit (users t))))"

text \<open>\<^verbatim>\<open>SELECT pin_block_date FROM irma.users WHERE id=$1 AND coredata IS NOT NULL\<close>\<close>

definition sql_select_pin_block_date :: "int \<Rightarrow> int list stmt" where
  "sql_select_pin_block_date p1 t =
     Inr (t, map u_pin_block_date
               (filter (\<lambda>r. u_id r = p1 \<and> u_coredata r \<noteq> None) (users t)))"

text \<open>
  \<open>now1\<close>, \<open>now2\<close> and \<open>now3\<close> are the three readings of \<^verbatim>\<open>time.Now().Unix()\<close>, in
  the order the function takes them. The result is Go's
  \<^verbatim>\<open>(bool, int, int64, error)\<close>.
\<close>

definition ReservePincheck ::
  "int \<Rightarrow> int \<Rightarrow> int \<Rightarrow> int \<Rightarrow> world \<Rightarrow> (bool \<times> int \<times> int \<times> error option) \<times> world" where
  "ReservePincheck uid now1 now2 now3 w =
     (case db_run (sql_update_pincheck (now1 - 1 - BACKOFF_START) BACKOFF_START
                       (MAX_PIN_TRIES - 2) uid now2) w of
        (Inl err, w1) \<Rightarrow> ((False, 0, 0, Some err), w1)
      | (Inr uprows, w1) \<Rightarrow>
          (case uprows of
             [] \<Rightarrow>
               (case db_run (sql_select_pin_block_date uid) w1 of
                  (Inl err, w2) \<Rightarrow> ((False, 0, 0, Some err), w2)
                | (Inr pinrows, w2) \<Rightarrow>
                    (case pinrows of
                       [] \<Rightarrow> ((False, 0, 0, Some ErrUserNotFound), w2)
                     | wait # _ \<Rightarrow>
                         (let wait1 = wait - now3;
                              wait2 = (if wait1 < 0 then 0 else wait1)
                          in ((False, 0, wait2, None), w2))))
           | (tries, wait) # _ \<Rightarrow>
               (let tries1 = MAX_PIN_TRIES - tries;
                    tries2 = (if tries1 < 0 then 0 else tries1);
                    wait1 = wait - now3;
                    wait2 = (if wait1 < 0 then 0 else wait1)
                in ((True, tries2, wait2, None), w1))))"

text \<open>\<^verbatim>\<open>UPDATE irma.users SET pin_counter=0, pin_block_date=0 WHERE id=$1\<close>\<close>

definition sql_clear_pincheck :: "int \<Rightarrow> int stmt" where
  "sql_clear_pincheck p1 t =
     Inr (t\<lparr>users := map (\<lambda>r. if u_id r = p1
                                then r\<lparr>u_pin_counter := 0, u_pin_block_date := 0\<rparr>
                                else r) (users t)\<rparr>,
          int (length (filter (\<lambda>r. u_id r = p1) (users t))))"

definition ClearPincheck :: "int \<Rightarrow> world \<Rightarrow> error option \<times> world" where
  "ClearPincheck uid w =
     (case db_run (sql_clear_pincheck uid) w of
        (Inl err, w1) \<Rightarrow> (Some err, w1)
      | (Inr c, w1) \<Rightarrow> if c = 0 then (Some ErrUserNotFound, w1) else (None, w1))"

section \<open>The shared database helpers (package keyshare)\<close>

text \<open>
  A Go result \<^verbatim>\<open>(v, err)\<close> is \<open>Inl err\<close> when \<^verbatim>\<open>err\<close> is not \<^verbatim>\<open>nil\<close> (every function
  below returns the zero value beside an error) and \<open>Inr v\<close> otherwise; a lone
  \<^verbatim>\<open>error\<close> is an \<^typ>\<open>error option\<close>.
\<close>

definition ExecCount :: "Tx option \<Rightarrow> int stmt \<Rightarrow> world \<Rightarrow> (error + int) \<times> world" where
  "ExecCount tx query w =
     (case tx of Some _ \<Rightarrow> tx_run query w | None \<Rightarrow> db_run query w)"

definition ExecUser :: "Tx option \<Rightarrow> int stmt \<Rightarrow> world \<Rightarrow> error option \<times> world" where
  "ExecUser tx query w =
     (case ExecCount tx query w of
        (Inl err, w1) \<Rightarrow> (Some err, w1)
      | (Inr c, w1) \<Rightarrow> if c \<noteq> 1 then (Some keyshare_ErrUserNotFound, w1) else (None, w1))"

definition QueryScan :: "Tx option \<Rightarrow> 'r list stmt \<Rightarrow> world \<Rightarrow> (error + 'r) \<times> world" where
  "QueryScan tx query w =
     (case (case tx of Some _ \<Rightarrow> tx_run query w | None \<Rightarrow> db_run query w) of
        (Inl err, w1) \<Rightarrow> (Inl err, w1)
      | (Inr res, w1) \<Rightarrow>
          (case res of [] \<Rightarrow> (Inl ErrNoRows, w1) | r # _ \<Rightarrow> (Inr r, w1)))"

definition QueryUser :: "Tx option \<Rightarrow> 'r list stmt \<Rightarrow> world \<Rightarrow> (error + 'r) \<times> world" where
  "QueryUser tx query w =
     (case QueryScan tx query w of
        (Inl err, w1) \<Rightarrow>
          if err = ErrNoRows then (Inl keyshare_ErrUserNotFound, w1) else (Inl err, w1)
      | (Inr r, w1) \<Rightarrow> (Inr r, w1))"

text \<open>
  \<^verbatim>\<open>QueryIterate\<close> calls \<open>f\<close> on every row, in order, until \<open>f\<close> returns an error. The
  closures it is given here write to a variable of their caller: \<open>f\<close> takes that
  variable's value and returns the new one.
\<close>

fun iterate :: "('s \<Rightarrow> 'r \<Rightarrow> error option \<times> 's) \<Rightarrow> 'r list \<Rightarrow> 's \<Rightarrow> error option \<times> 's" where
  "iterate f [] s = (None, s)"
| "iterate f (r # rs) s =
     (case f s r of (Some err, s1) \<Rightarrow> (Some err, s1) | (None, s1) \<Rightarrow> iterate f rs s1)"

definition QueryIterate ::
  "Tx option \<Rightarrow> 'r list stmt \<Rightarrow> ('s \<Rightarrow> 'r \<Rightarrow> error option \<times> 's) \<Rightarrow> 's \<Rightarrow> world
     \<Rightarrow> (error option \<times> 's) \<times> world" where
  "QueryIterate tx query f s w =
     (case (case tx of Some _ \<Rightarrow> tx_run query w | None \<Rightarrow> db_run query w) of
        (Inl err, w1) \<Rightarrow> ((Some err, s), w1)
      | (Inr res, w1) \<Rightarrow> (iterate f res s, w1))"

section \<open>The MyIRMA server's store (myirmaserver/postgresdb.go)\<close>

text \<open>
  A Go slice is \<^const>\<open>None\<close> when it is \<^verbatim>\<open>nil\<close>; \<^verbatim>\<open>append\<close> never returns \<^verbatim>\<open>nil\<close>.
  Times that Go keeps as \<^verbatim>\<open>time.Time\<close> or \<^verbatim>\<open>time.Duration\<close> are nanoseconds.
\<close>

definition append_slice :: "'a list option \<Rightarrow> 'a \<Rightarrow> 'a list option" where
  "append_slice xs x = (case xs of None \<Rightarrow> Some [x] | Some ys \<Rightarrow> Some (ys @ [x]))"

definition Second :: int where
  "Second = 1000000000"

definition Unix :: "int \<Rightarrow> int" where
  "Unix t = t div Second"

text \<open>\<^verbatim>\<open>delete_on >= $n OR delete_on IS NULL\<close>\<close>

definition not_deleted :: "int \<Rightarrow> int option \<Rightarrow> bool" where
  "not_deleted p d = (case d of None \<Rightarrow> True | Some t \<Rightarrow> t \<ge> p)"

text \<open>\<^verbatim>\<open>SELECT id FROM irma.users WHERE username = $1\<close>\<close>

definition sql_select_user_id :: "string \<Rightarrow> int list stmt" where
  "sql_select_user_id p1 t =
     Inr (t, map u_id (filter (\<lambda>r. u_username r = p1) (users t)))"

definition UserID :: "string \<Rightarrow> world \<Rightarrow> (error + int) \<times> world" where
  "UserID name w = QueryUser None (sql_select_user_id name) w"

text \<open>
  \<^verbatim>\<open>UPDATE irma.emails SET delete_on = NULL WHERE user_id = $1 AND email = $2\<close>
\<close>

definition sql_restore_email :: "int \<Rightarrow> string \<Rightarrow> int stmt" where
  "sql_restore_email p1 p2 t =
     (let hit = (\<lambda>r. e_user_id r = p1 \<and> e_email r = p2)
      in Inr (t\<lparr>emails := map (\<lambda>r. if hit r then r\<lparr>e_delete_on := None\<rparr> else r) (emails t)\<rparr>,
              int (length (filter hit (emails t)))))"

text \<open>\<^verbatim>\<open>INSERT INTO irma.emails (user_id, email) VALUES ($1, $2)\<close>\<close>

definition sql_insert_email :: "int \<Rightarrow> string \<Rightarrow> int stmt" where
  "sql_insert_email p1 p2 t =
     Inr (t\<lparr>emails := emails t @ [\<lparr>e_user_id = p1, e_email = p2, e_delete_on = None\<rparr>]\<rparr>, 1)"

definition AddEmail :: "int \<Rightarrow> string \<Rightarrow> world \<Rightarrow> error option \<times> world" where
  "AddEmail uid email w =
     (case ExecCount None (sql_restore_email uid email) w of
        (Inl err, w1) \<Rightarrow> (Some err, w1)
      | (Inr aff, w1) \<Rightarrow>
          if aff = 1 then (None, w1)
          else (case ExecCount None (sql_insert_email uid email) w1 of
                  (Inl err, w2) \<Rightarrow> (Some err, w2)
                | (Inr _, w2) \<Rightarrow> (None, w2)))"

text \<open>
  \<^verbatim>\<open>UPDATE irma.emails SET delete_on = $3
  WHERE user_id = $1 AND email = $2 AND delete_on IS NULL\<close>
\<close>

definition sql_remove_email :: "int \<Rightarrow> string \<Rightarrow> int \<Rightarrow> int stmt" where
  "sql_remove_email p1 p2 p3 t =
     (let hit = (\<lambda>r. e_user_id r = p1 \<and> e_email r = p2 \<and> e_delete_on r = None)
      in Inr (t\<lparr>emails := map (\<lambda>r. if hit r then r\<lparr>e_delete_on := Some p3\<rparr> else r) (emails t)\<rparr>,
              int (length (filter hit (emails t)))))"

definition RemoveEmail :: "int \<Rightarrow> string \<Rightarrow> int \<Rightarrow> int \<Rightarrow> world \<Rightarrow> error option \<times> world" where
  "RemoveEmail uid email delay now w =
     (case ExecCount None (sql_remove_email uid email (Unix (now + delay))) w of
        (Inl err, w1) \<Rightarrow> (Some err, w1)
      | (Inr aff, w1) \<Rightarrow>
          if aff \<noteq> 1
          then (Some (Errorf ''Unexpected number of affected rows %d for email removal'' aff), w1)
          else (None, w1))"

text \<open>
  \<^verbatim>\<open>SELECT user_id, email FROM irma.email_verification_tokens
  WHERE token = $1 AND expiry >= $2\<close>
\<close>

definition sql_select_verification_token :: "string \<Rightarrow> int \<Rightarrow> (int \<times> string) list stmt" where
  "sql_select_verification_token p1 p2 t =
     Inr (t, map (\<lambda>r. (vt_user_id r, vt_email r))
               (filter (\<lambda>r. vt_token r = p1 \<and> vt_expiry r \<ge> p2) (email_verification_tokens t)))"

text \<open>\<^verbatim>\<open>DELETE FROM irma.email_verification_tokens WHERE token = $1\<close>\<close>

definition sql_delete_verification_token :: "string \<Rightarrow> int stmt" where
  "sql_delete_verification_token p1 t =
     Inr (t\<lparr>email_verification_tokens :=
               filter (\<lambda>r. vt_token r \<noteq> p1) (email_verification_tokens t)\<rparr>,
          int (length (filter (\<lambda>r. vt_token r = p1) (email_verification_tokens t))))"

text \<open>
  \<open>now\<close> is the function's reading of \<^verbatim>\<open>time.Now().Unix()\<close>. \<^verbatim>\<open>VerifyEmailToken\<close> and
  \<^verbatim>\<open>TryUserLoginToken\<close> are called with the transaction that \<^verbatim>\<open>Tx\<close> began; the panic of
  \<^verbatim>\<open>tx.(*sql.Tx)\<close> on a \<^verbatim>\<open>nil\<close> interface is modelled in \<^verbatim>\<open>SetSeen\<close>, the one function
  that is called with \<^verbatim>\<open>nil\<close>.
\<close>

definition VerifyEmailToken :: "Tx option \<Rightarrow> string \<Rightarrow> int \<Rightarrow> world \<Rightarrow> (error + int) \<times> world" where
  "VerifyEmailToken tx token now w =
     (case QueryScan tx (sql_select_verification_token token now) w of
        (Inl err, w1) \<Rightarrow>
          if err = ErrNoRows then (Inl ErrTokenNotFound, w1) else (Inl err, w1)
      | (Inr (uid, email), w1) \<Rightarrow>
          (case AddEmail uid email w1 of
             (Some err, w2) \<Rightarrow> (Inl err, w2)
           | (None, w2) \<Rightarrow>
               (case ExecCount tx (sql_delete_verification_token token) w2 of
                  (Inl err, w3) \<Rightarrow> (Inr uid, LogError err w3)
                | (Inr aff, w3) \<Rightarrow>
                    if aff \<noteq> 1
                    then (Inr uid,
                          LogError (Errorf ''Unexpected number of deleted records %d for token'' aff) w3)
                    else (Inr uid, w3))))"

text \<open>
  \<^verbatim>\<open>UPDATE irma.users SET coredata = NULL, delete_on = $2
  WHERE id = $1 AND coredata IS NOT NULL\<close>
\<close>

definition sql_remove_user :: "int \<Rightarrow> int \<Rightarrow> int stmt" where
  "sql_remove_user p1 p2 t =
     (let hit = (\<lambda>r. u_id r = p1 \<and> u_coredata r \<noteq> None)
      in Inr (t\<lparr>users := map (\<lambda>r. if hit r then r\<lparr>u_coredata := None, u_delete_on := Some p2\<rparr>
                                     else r) (users t)\<rparr>,
              int (length (filter hit (users t)))))"

definition RemoveUser :: "int \<Rightarrow> int \<Rightarrow> int \<Rightarrow> world \<Rightarrow> error option \<times> world" where
  "RemoveUser uid delay now w = ExecUser None (sql_remove_user uid (Unix (now + delay))) w"

text \<open>
  A subquery used as a value: no row is \<^verbatim>\<open>NULL\<close>, and PostgreSQL refuses more than
  one row.
\<close>

definition scalar_subquery :: "'a list \<Rightarrow> error + 'a option" where
  "scalar_subquery rows =
     (case rows of [] \<Rightarrow> Inr None | [x] \<Rightarrow> Inr (Some x) | _ \<Rightarrow> Inl ErrDriver)"

text \<open>
  \<^verbatim>\<open>SELECT users.id FROM irma.users INNER JOIN irma.emails ON users.id = emails.user_id
  WHERE username = $1 AND (emails.delete_on >= $3 OR emails.delete_on IS NULL) AND
  email = (SELECT email FROM irma.email_login_tokens WHERE token = $2 AND expiry >= $3)\<close>

  A comparison with \<^verbatim>\<open>NULL\<close> selects no row.
\<close>

definition sql_select_login_user :: "string \<Rightarrow> string \<Rightarrow> int \<Rightarrow> int list stmt" where
  "sql_select_login_user p1 p2 p3 t =
     (case scalar_subquery
             (map lt_email (filter (\<lambda>r. lt_token r = p2 \<and> lt_expiry r \<ge> p3)
                                   (email_login_tokens t))) of
        Inl err \<Rightarrow> Inl err
      | Inr sub \<Rightarrow>
          Inr (t, concat (map (\<lambda>u. map (\<lambda>e. u_id u)
                 (filter (\<lambda>e. u_id u = e_user_id e \<and> u_username u = p1 \<and>
                               not_deleted p3 (e_delete_on e) \<and> Some (e_email e) = sub)
                         (emails t))) (users t))))"

text \<open>\<^verbatim>\<open>DELETE FROM irma.email_login_tokens WHERE token = $1\<close>\<close>

definition sql_delete_login_token :: "string \<Rightarrow> int stmt" where
  "sql_delete_login_token p1 t =
     Inr (t\<lparr>email_login_tokens := filter (\<lambda>r. lt_token r \<noteq> p1) (email_login_tokens t)\<rparr>,
          int (length (filter (\<lambda>r. lt_token r = p1) (email_login_tokens t))))"

definition TryUserLoginToken ::
  "Tx option \<Rightarrow> string \<Rightarrow> string \<Rightarrow> int \<Rightarrow> world \<Rightarrow> (error + int) \<times> world" where
  "TryUserLoginToken tx token name now w =
     (case QueryUser tx (sql_select_login_user name token now) w of
        (Inl err, w1) \<Rightarrow> (Inl err, w1)
      | (Inr uid, w1) \<Rightarrow>
          (case ExecCount tx (sql_delete_login_token token) w1 of
             (Inl err, w2) \<Rightarrow> (Inl err, w2)
           | (Inr aff, w2) \<Rightarrow>
               if aff \<noteq> 1
               then (Inl (Errorf ''Unexpected number of affected rows %d for token removal'' aff), w2)
               else (Inr uid, w2)))"

record UserEmail =
  Email :: string
  EmailDeleteInProgress :: bool

record UserInformation =
  InfoUsername :: string
  Emails :: "UserEmail list option"
  language :: string
  DeleteInProgress :: bool

definition UserInformation_zero :: UserInformation where
  "UserInformation_zero =
     \<lparr>InfoUsername = [], Emails = None, language = [], DeleteInProgress = False\<rparr>"

text \<open>
  \<^verbatim>\<open>SELECT username, language, (coredata IS NULL) AS delete_in_progress
  FROM irma.users WHERE id = $1\<close>
\<close>

definition sql_select_user_information :: "int \<Rightarrow> (string \<times> string \<times> bool) list stmt" where
  "sql_select_user_information p1 t =
     Inr (t, map (\<lambda>r. (u_username r, u_language r, u_coredata r = None))
               (filter (\<lambda>r. u_id r = p1) (users t)))"

text \<open>
  \<^verbatim>\<open>SELECT email, (delete_on IS NOT NULL) AS delete_in_progress FROM irma.emails
  WHERE user_id = $1 AND (delete_on >= $2 OR delete_on IS NULL)\<close>
\<close>

definition sql_select_emails :: "int \<Rightarrow> int \<Rightarrow> (string \<times> bool) list stmt" where
  "sql_select_emails p1 p2 t =
     Inr (t, map (\<lambda>r. (e_email r, e_delete_on r \<noteq> None))
               (filter (\<lambda>r. e_user_id r = p1 \<and> not_deleted p2 (e_delete_on r)) (emails t)))"

definition UserInformation :: "int \<Rightarrow> int \<Rightarrow> world \<Rightarrow> (error + UserInformation) \<times> world" where
  "UserInformation uid now w =
     (case QueryUser None (sql_select_user_information uid) w of
        (Inl err, w1) \<Rightarrow> (Inl err, w1)
      | (Inr (name, lang, del), w1) \<Rightarrow>
          (let result = UserInformation_zero
                 \<lparr>InfoUsername := name, language := lang, DeleteInProgress := del\<rparr>
           in case QueryIterate None (sql_select_emails uid now)
                     (\<lambda>res (email, del). (None, res\<lparr>Emails := append_slice (Emails res)
                         \<lparr>Email = email, EmailDeleteInProgress = del\<rparr>\<rparr>))
                     result w1 of
                ((Some err, _), w2) \<Rightarrow> (Inl err, w2)
              | ((None, result1), w2) \<Rightarrow> (Inr result1, w2)))"

record LogEntry =
  Timestamp :: int
  Event :: int
  Param :: "string option"

text \<open>
  \<^verbatim>\<open>SELECT time, event, param FROM irma.log_entry_records WHERE user_id = $1
  ORDER BY time DESC OFFSET $2 LIMIT $3\<close>

  PostgreSQL refuses a negative \<^verbatim>\<open>OFFSET\<close> or \<^verbatim>\<open>LIMIT\<close>. Rows of the same time keep
  their order.
\<close>

definition sql_select_logs :: "int \<Rightarrow> int \<Rightarrow> int \<Rightarrow> (int \<times> int \<times> string option) list stmt" where
  "sql_select_logs p1 p2 p3 t =
     (if p2 < 0 \<or> p3 < 0 then Inl ErrDriver
      else Inr (t, map (\<lambda>r. (le_time r, le_event r, le_param r))
                     (take (nat p3) (drop (nat p2)
                        (sort_key (\<lambda>r. - le_time r)
                           (filter (\<lambda>r. le_user_id r = p1) (log_entry_records t)))))))"

definition Logs :: "int \<Rightarrow> int \<Rightarrow> int \<Rightarrow> world \<Rightarrow> (error + LogEntry list option) \<times> world" where
  "Logs uid offset amount w =
     (case QueryIterate None (sql_select_logs uid offset amount)
             (\<lambda>res (time, event, param).
                (None, append_slice res \<lparr>Timestamp = time, Event = event, Param = param\<rparr>))
             None w of
        ((Some err, _), w1) \<Rightarrow> (Inl err, w1)
      | ((None, result), w1) \<Rightarrow> (Inr result, w1))"

text \<open>\<^verbatim>\<open>UPDATE irma.users SET last_seen = $1 WHERE id = $2\<close>\<close>

definition sql_set_seen :: "int \<Rightarrow> int \<Rightarrow> int stmt" where
  "sql_set_seen p1 p2 t =
     Inr (t\<lparr>users := map (\<lambda>r. if u_id r = p2 then r\<lparr>u_last_seen := p1\<rparr> else r) (users t)\<rparr>,
          int (length (filter (\<lambda>r. u_id r = p2) (users t))))"

text \<open>
  \<^verbatim>\<open>SetSeen\<close> takes the interface \<^verbatim>\<open>keyshare.Tx\<close> and passes \<^verbatim>\<open>tx.(*sql.Tx)\<close> on. The type
  assertion panics when \<open>tx\<close> is the \<^verbatim>\<open>nil\<close> interface, before any statement runs: the
  result is \<^const>\<open>None\<close> then.
\<close>

definition SetSeen ::
  "Tx option \<Rightarrow> int \<Rightarrow> int \<Rightarrow> world \<Rightarrow> (error option \<times> world) option" where
  "SetSeen tx uid now w =
     (case tx of
        None \<Rightarrow> None
      | Some t \<Rightarrow> Some (ExecUser (Some t) (sql_set_seen now uid) w))"

section \<open>The MyIRMA server (myirmaserver/server.go)\<close>

text \<open>
  Modelled from the spec: the error kinds of package \<^verbatim>\<open>server\<close>, which is not among the
  sources. The spec's error taxonomy lists \<^verbatim>\<open>UserNotRegistered\<close>, \<^verbatim>\<open>InvalidProofs\<close>,
  \<^verbatim>\<open>InvalidRequest\<close> and \<^verbatim>\<open>Internal\<close> as kinds that clients tell apart.
\<close>

datatype server_Error =
    ErrorInvalidProofs
  | ErrorUserNotRegistered
  | ErrorInternal
  | ErrorInvalidRequest

text \<open>A message is a string literal of the source or the \<^verbatim>\<open>Error()\<close> text of an error.\<close>

datatype message = Text string | Error_of error

record Sessiondata =
  token :: string
  userID :: "int option"
  expiry :: int
  pendingError :: "server_Error option"
  pendingErrorMessage :: message

record Server =
  SessionLifetime :: int
  store :: "string \<rightharpoonup> Sessiondata"
  db :: world

text \<open>
  Modelled from the spec: the session store (its source file is not among the
  sources). \<^verbatim>\<open>get(token)\<close> returns the session only if it is unexpired and then extends
  its expiry to now plus the lifetime; it returns nothing after the expiry.
  A \<^verbatim>\<open>*Sessiondata\<close> points into the store, so a handler's write to a field is a write
  to the store's entry; \<open>set_session\<close> is that write.
\<close>

definition store_get :: "string \<Rightarrow> int \<Rightarrow> Server \<Rightarrow> Sessiondata option \<times> Server" where
  "store_get tok now s =
     (case store s tok of
        None \<Rightarrow> (None, s)
      | Some session \<Rightarrow>
          if expiry session < now then (None, s)
          else (let session1 = session\<lparr>expiry := now + SessionLifetime s * Second\<rparr>
                in (Some session1, s\<lparr>store := (store s)(tok \<mapsto> session1)\<rparr>)))"

definition set_session :: "string \<Rightarrow> Sessiondata \<Rightarrow> Server \<Rightarrow> Server" where
  "set_session tok session s = s\<lparr>store := (store s)(tok \<mapsto> session)\<rparr>"

text \<open>
  What a handler writes. \<^verbatim>\<open>encoding/json\<close> writes a \<^verbatim>\<open>nil\<close> slice as \<^verbatim>\<open>null\<close> and any
  other slice as an array; the unexported field \<^verbatim>\<open>language\<close> is not written.
  \<open>Panic\<close> is a \<^verbatim>\<open>nil\<close> dereference or an index out of range.
\<close>

datatype 'a json_array = JsonNull | JsonArray "'a list"

definition marshal_slice :: "'a list option \<Rightarrow> 'a json_array" where
  "marshal_slice xs = (case xs of None \<Rightarrow> JsonNull | Some ys \<Rightarrow> JsonArray ys)"

datatype json =
    JsonUserInformation string "UserEmail json_array" bool
  | JsonLogEntries "LogEntry json_array"

datatype body =
    WriteString string
  | WriteError server_Error message
  | WriteJson json
  | Panic

record response =
  body :: body
  cookie :: "(string \<times> int) option"

definition sessionFromCookie :: "string option \<Rightarrow> int \<Rightarrow> Server \<Rightarrow> Sessiondata option \<times> Server" where
  "sessionFromCookie c now s =
     (case c of None \<Rightarrow> (None, s) | Some tok \<Rightarrow> store_get tok now s)"

text \<open>
  In the handlers, \<open>c\<close> is the value of the request's cookie \<^verbatim>\<open>session\<close> (\<^const>\<open>None\<close>
  without one), which is the key of the session in the store.
\<close>

definition handleCheckSession :: "string option \<Rightarrow> int \<Rightarrow> Server \<Rightarrow> response \<times> Server" where
  "handleCheckSession c now s =
     (case sessionFromCookie c now s of
        (None, s1) \<Rightarrow> (\<lparr>body = WriteString ''expired'', cookie = None\<rparr>, s1)
      | (Some session, s1) \<Rightarrow>
          if userID session = None
          then (\<lparr>body = WriteString ''expired'', cookie = None\<rparr>, s1)
          else (case pendingError session of
                  Some e \<Rightarrow>
                    (\<lparr>body = WriteError e (pendingErrorMessage session), cookie = None\<rparr>,
                     (case c of
                        None \<Rightarrow> s1
                      | Some tok \<Rightarrow>
                          set_session tok
                            (session\<lparr>pendingError := None, pendingErrorMessage := Text []\<rparr>) s1))
                | None \<Rightarrow>
                    if userID session = None
                    then (\<lparr>body = WriteString ''expired'', cookie = None\<rparr>, s1)
                    else (\<lparr>body = WriteString ''ok'', cookie = None\<rparr>, s1)))"

text \<open>
  Modelled from the spec: the result of a disclosure, whose types are declared outside
  these sources. A disclosure is completed or not, and its proof is valid or not; the
  source names only \<^verbatim>\<open>StatusDone\<close> and \<^verbatim>\<open>ProofStatusValid\<close>, and the other constructors
  are the other values of the two types. Of a disclosed attribute only \<^verbatim>\<open>RawValue\<close>, a
  \<^verbatim>\<open>*string\<close>, is read.
\<close>

datatype Status =
    StatusInitialized
  | StatusConnected
  | StatusCancelled
  | StatusDone
  | StatusTimeout

datatype ProofStatus =
    ProofStatusValid
  | ProofStatusInvalid
  | ProofStatusInvalidTimestamp
  | ProofStatusUnmatchedRequest
  | ProofStatusMissingAttributes
  | ProofStatusExpired

record SessionResult =
  Status :: Status
  ProofStatus :: ProofStatus
  Disclosed :: "string option list list"

text \<open>
  \<open>now1\<close> is the time the store reads in \<^verbatim>\<open>get\<close>, \<open>now2\<close> the reading of
  \<^verbatim>\<open>time.Now().Unix()\<close> in \<^verbatim>\<open>SetSeen\<close>. The result is \<^const>\<open>None\<close> when the function
  panics: on \<^verbatim>\<open>result.Disclosed[0][0]\<close> out of range, on a \<^verbatim>\<open>nil\<close> \<^verbatim>\<open>RawValue\<close>, and in
  \<^verbatim>\<open>s.db.SetSeen(nil, id)\<close>, which the function reaches after it has written
  \<^verbatim>\<open>session.userID\<close>. What a panic leaves of the state depends on who recovers it and is
  not part of the result. Calls of the logger \<^verbatim>\<open>s.conf.Logger\<close> are left out.
\<close>

definition processLoginIrmaSessionResult ::
  "string \<Rightarrow> SessionResult \<Rightarrow> int \<Rightarrow> int \<Rightarrow> Server \<Rightarrow> Server option" where
  "processLoginIrmaSessionResult sessiontoken result now1 now2 s =
     (case store_get sessiontoken now1 s of
        (None, s1) \<Rightarrow> Some s1
      | (Some session, s1) \<Rightarrow>
          if Status result \<noteq> StatusDone then Some s1
          else if ProofStatus result \<noteq> ProofStatusValid
          then Some (set_session sessiontoken
                       (session\<lparr>pendingError := Some ErrorInvalidProofs,
                                pendingErrorMessage := Text []\<rparr>) s1)
          else (case Disclosed result of
                  (Some name # _) # _ \<Rightarrow>
                    (case UserID name (db s1) of
                       (Inl err, w1) \<Rightarrow>
                         if err = keyshare_ErrUserNotFound
                         then Some (set_session sessiontoken
                                      (session\<lparr>pendingError := Some ErrorUserNotRegistered,
                                               pendingErrorMessage := Text []\<rparr>)
                                      (s1\<lparr>db := w1\<rparr>))
                         else Some (set_session sessiontoken
                                      (session\<lparr>pendingError := Some ErrorInternal,
                                               pendingErrorMessage := Error_of err\<rparr>)
                                      (s1\<lparr>db := w1\<rparr>))
                     | (Inr uid, w1) \<Rightarrow>
                         (case SetSeen None uid now2 w1 of
                            None \<Rightarrow> None
                          | Some (_, w2) \<Rightarrow>
                              Some (set_session sessiontoken (session\<lparr>userID := Some uid\<rparr>)
                                      (s1\<lparr>db := w2\<rparr>))))
                | _ \<Rightarrow> None))"

definition marshal_UserInformation :: "UserInformation \<Rightarrow> json" where
  "marshal_UserInformation u =
     JsonUserInformation (InfoUsername u) (marshal_slice (Emails u)) (DeleteInProgress u)"

text \<open>
  The handlers behind \<open>sessionMiddleware\<close> take the session that the middleware put into
  the request's context and the key \<open>tok\<close> it has in the store. \<open>now1\<close> is the reading of
  \<^verbatim>\<open>time.Now().Unix()\<close> in \<^verbatim>\<open>UserInformation\<close>, \<open>now2\<close> the later \<^verbatim>\<open>time.Now()\<close>.
\<close>

definition handleUserInfo ::
  "int \<Rightarrow> int \<Rightarrow> string \<Rightarrow> Sessiondata \<Rightarrow> Server \<Rightarrow> response \<times> Server" where
  "handleUserInfo now1 now2 tok session s =
     (case userID session of
        None \<Rightarrow> (\<lparr>body = Panic, cookie = None\<rparr>, s)
      | Some uid \<Rightarrow>
          (case UserInformation uid now1 (db s) of
             (Inl err, w1) \<Rightarrow>
               (\<lparr>body = WriteError ErrorInternal (Error_of err), cookie = None\<rparr>, s\<lparr>db := w1\<rparr>)
           | (Inr userinfo, w1) \<Rightarrow>
               (let session1 = session\<lparr>expiry := now2 + SessionLifetime s * Second\<rparr>;
                    userinfo1 = (if Emails userinfo = None then userinfo\<lparr>Emails := Some []\<rparr>
                                 else userinfo)
                in (\<lparr>body = WriteJson (marshal_UserInformation userinfo1),
                     cookie = Some (token session, SessionLifetime s)\<rparr>,
                    set_session tok session1 (s\<lparr>db := w1\<rparr>)))))"

text \<open>
  \<open>offset\<close> is what \<^verbatim>\<open>strconv.Atoi\<close> makes of the URL parameter \<^verbatim>\<open>offset\<close>; \<open>now\<close> is
  the reading of \<^verbatim>\<open>time.Now()\<close>.
\<close>

definition handleGetLogs ::
  "error + int \<Rightarrow> int \<Rightarrow> string \<Rightarrow> Sessiondata \<Rightarrow> Server \<Rightarrow> response \<times> Server" where
  "handleGetLogs offset now tok session s =
     (case offset of
        Inl err \<Rightarrow> (\<lparr>body = WriteError ErrorInvalidRequest (Error_of err), cookie = None\<rparr>, s)
      | Inr off \<Rightarrow>
          (case userID session of
             None \<Rightarrow> (\<lparr>body = Panic, cookie = None\<rparr>, s)
           | Some uid \<Rightarrow>
               (case Logs uid off 11 (db s) of
                  (Inl err, w1) \<Rightarrow>
                    (\<lparr>body = WriteError ErrorInternal (Error_of err), cookie = None\<rparr>,
                     s\<lparr>db := w1\<rparr>)
                | (Inr entries, w1) \<Rightarrow>
                    (let session1 = session\<lparr>expiry := now + SessionLifetime s * Second\<rparr>;
                         entries1 = (if entries = None then Some [] else entries)
                     in (\<lparr>body = WriteJson (JsonLogEntries (marshal_slice entries1)),
                          cookie = Some (token session, SessionLifetime s)\<rparr>,
                         set_session tok session1 (s\<lparr>db := w1\<rparr>))))))"

definition sessionMiddleware ::
  "(string \<Rightarrow> Sessiondata \<Rightarrow> Server \<Rightarrow> response \<times> Server) \<Rightarrow> string option \<Rightarrow> int \<Rightarrow> Server
     \<Rightarrow> response \<times> Server" where
  "sessionMiddleware next c now s =
     (case sessionFromCookie c now s of
        (None, s1) \<Rightarrow>
          (\<lparr>body = WriteError ErrorInvalidRequest (Text ''not logged in''), cookie = None\<rparr>, s1)
      | (Some session, s1) \<Rightarrow>
          (case (c, userID session) of
             (Some tok, Some _) \<Rightarrow> next tok session s1
           | _ \<Rightarrow>
               (\<lparr>body = WriteError ErrorInvalidRequest (Text ''not logged in''), cookie = None\<rparr>,
                s1)))"

section \<open>Example states\<close>

text \<open>
  A world with the given tables, no open transaction, a driver that does not fail and an
  empty log; and the states of the spec's scenarios.
\<close>

definition world_of :: "tables \<Rightarrow> world" where
  "world_of t = \<lparr>committed = t, pending = [], faults = [], logged = []\<rparr>"

definition no_tables :: tables where
  "no_tables = \<lparr>users = [], emails = [], email_verification_tokens = [],
                 email_login_tokens = [], log_entry_records = []\<rparr>"

definition user_u :: user_row where
  "user_u = \<lparr>u_id = 1, u_username = ''u'', u_language = ''en'', u_coredata = Some ''secret'',
              u_last_seen = 900, u_pin_counter = 0, u_pin_block_date = 0, u_delete_on = None\<rparr>"

definition world_S1 :: world where
  "world_S1 = world_of (no_tables\<lparr>users := [user_u]\<rparr>)"

definition user_blocked :: user_row where
  "user_blocked = user_u\<lparr>u_pin_counter := 3, u_pin_block_date := 1029\<rparr>"

definition user_deleted :: user_row where
  "user_deleted = user_u\<lparr>u_coredata := None, u_pin_block_date := 2000, u_delete_on := Some 5000\<rparr>"

definition world_blocked :: world where
  "world_blocked = world_of (no_tables\<lparr>users := [user_blocked]\<rparr>)"

definition world_deleted :: world where
  "world_deleted = world_of (no_tables\<lparr>users := [user_deleted]\<rparr>)"

definition world_removed :: world where
  "world_removed =
     world_of (no_tables\<lparr>users := [user_u\<lparr>u_coredata := None, u_delete_on := Some 605800\<rparr>]\<rparr>)"

text \<open>The rows of \<^verbatim>\<open>irma.emails\<close> for a user and an address, as committed.\<close>

definition email_rows :: "int \<Rightarrow> string \<Rightarrow> world \<Rightarrow> email_row list" where
  "email_rows uid email w =
     filter (\<lambda>r. e_user_id r = uid \<and> e_email r = email) (emails (committed w))"

definition email_ex :: email_row where
  "email_ex = \<lparr>e_user_id = 1, e_email = ''e@x'', e_delete_on = None\<rparr>"

definition world_S4 :: world where
  "world_S4 = world_of (no_tables\<lparr>users := [user_u], emails := [email_ex]\<rparr>)"

text \<open>
  The tables a statement sees: the committed ones outside a transaction, the
  transaction's view inside.
\<close>

definition seen_by :: "Tx option \<Rightarrow> world \<Rightarrow> tables" where
  "seen_by tx w = (case tx of None \<Rightarrow> committed w | Some _ \<Rightarrow> tx_view w)"

definition token_S2 :: email_verification_token_row where
  "token_S2 = \<lparr>vt_token = ''tok1'', vt_email = ''a@x'', vt_user_id = 1, vt_expiry = 87400\<rparr>"

definition world_S2 :: world where
  "world_S2 = world_of (no_tables\<lparr>users := [user_u], email_verification_tokens := [token_S2]\<rparr>)"

definition world_S2_delete_fails :: world where
  "world_S2_delete_fails = world_S2\<lparr>faults := [False, False, False, True]\<rparr>"

definition world_S3 :: world where
  "world_S3 = world_of (no_tables
     \<lparr>users := [user_u\<lparr>u_id := 2, u_username := ''bob''\<rparr>,
                user_u\<lparr>u_id := 3, u_username := ''carol''\<rparr>],
      emails := [\<lparr>e_user_id = 2, e_email = ''shared@x'', e_delete_on = None\<rparr>,
                 \<lparr>e_user_id = 3, e_email = ''shared@x'', e_delete_on = None\<rparr>],
      email_login_tokens := [\<lparr>lt_token = ''tok2'', lt_email = ''shared@x'', lt_expiry = 4600\<rparr>]\<rparr>)"

text \<open>
  The spec's scenario S6: a server with one anonymous session \<open>s1\<close> and the user \<open>u\<close>,
  and the results a disclosure can report.
\<close>

definition session_S6 :: Sessiondata where
  "session_S6 = \<lparr>token = ''s1'', userID = None, expiry = 2000 * Second,
                  pendingError = None, pendingErrorMessage = Text []\<rparr>"

definition server_S6 :: Server where
  "server_S6 = \<lparr>SessionLifetime = 900, store = [''s1'' \<mapsto> session_S6], db = world_S1\<rparr>"

definition result_invalid :: SessionResult where
  "result_invalid = \<lparr>Status = StatusDone, ProofStatus = ProofStatusInvalid, Disclosed = []\<rparr>"

definition result_valid :: "string \<Rightarrow> SessionResult" where
  "result_valid name =
     \<lparr>Status = StatusDone, ProofStatus = ProofStatusValid, Disclosed = [[Some name]]\<rparr>"

definition session_user :: Sessiondata where
  "session_user = session_S6\<lparr>userID := Some 1\<rparr>"

section \<open>The driver without failures\<close>

lemma next_fault_none: "faults w = [] \<Longrightarrow> next_fault w = (False, w)"
  by (simp add: next_fault_def)

lemma db_run_ok:
  "faults w = [] \<Longrightarrow>
   db_run q w = (case q (committed w) of
                   Inl e \<Rightarrow> (Inl e, w)
                 | Inr (t', a) \<Rightarrow> (Inr a, w\<lparr>committed := t'\<rparr>))"
  by (simp add: db_run_def next_fault_none)

lemma tx_run_ok:
  "faults w = [] \<Longrightarrow>
   tx_run q w = (case q (tx_view w) of
                   Inl e \<Rightarrow> (Inl e, w)
                 | Inr (t', a) \<Rightarrow> (Inr a, w\<lparr>pending := pending w @ [effect q]\<rparr>))"
  by (simp add: tx_run_def next_fault_none)

section \<open>Updating the one row with a key\<close>

lemma map_upd_unique:
  "\<forall>r\<in>set pre \<union> set post. \<not> P r \<Longrightarrow> P row
   \<Longrightarrow> map (\<lambda>r. if P r then f r else r) (pre @ row # post) = pre @ f row # post"
  by (simp add: map_idI)

lemma filter_unique:
  "\<forall>r\<in>set pre \<union> set post. \<not> P r \<Longrightarrow> P row \<Longrightarrow> filter P (pre @ row # post) = [row]"
  by (simp add: filter_empty_conv)

lemma map_upd_none:
  "\<forall>r\<in>set xs. \<not> P r \<Longrightarrow> map (\<lambda>r. if P r then f r else r) xs = xs"
  by (simp add: map_idI)

section \<open>The PIN controller\<close>

lemma sql_update_pincheck_hit:
  assumes tab: "users t = pre @ row # post"
    and key: "\<forall>r\<in>set pre \<union> set post. u_id r \<noteq> uid"
    and row: "u_id row = uid" "u_coredata row \<noteq> None" "u_pin_block_date row \<le> p5"
  shows "sql_update_pincheck p1 p2 p3 uid p5 t =
           Inr (t\<lparr>users := pre @
                   row\<lparr>u_pin_counter := u_pin_counter row + 1,
                       u_pin_block_date := p1 + p2 * 2 ^ nat (max 0 (u_pin_counter row - p3))\<rparr>
                   # post\<rparr>,
                [(u_pin_counter row + 1, p1 + p2 * 2 ^ nat (max 0 (u_pin_counter row - p3)))])"
proof -
  let ?hit = "\<lambda>r. u_id r = uid \<and> u_pin_block_date r \<le> p5 \<and> u_coredata r \<noteq> None"
  have nohit: "\<forall>r\<in>set pre \<union> set post. \<not> ?hit r" using key by blast
  have hit: "?hit row" using row by simp
  note m = map_upd_unique [where P = ?hit, OF nohit hit]
  note f = filter_unique [where P = ?hit, OF nohit hit]
  show ?thesis
    unfolding sql_update_pincheck_def Let_def tab m f by simp
qed

lemma ReservePincheck_allowed:
  assumes tab: "users (committed w) = pre @ row # post"
    and key: "\<forall>r\<in>set pre \<union> set post. u_id r \<noteq> uid"
    and row: "u_id row = uid" "u_coredata row \<noteq> None" "u_pin_block_date row \<le> now"
    and ok: "faults w = []"
  shows "ReservePincheck uid now now now w =
           ((True, max 0 (3 - (u_pin_counter row + 1)),
             max 0 ((now - 1 - 30) + 30 * 2 ^ nat (max 0 (u_pin_counter row - 1)) - now), None),
            w\<lparr>committed := (committed w)\<lparr>users := pre @
                 row\<lparr>u_pin_counter := u_pin_counter row + 1,
                     u_pin_block_date := (now - 1 - 30) + 30 * 2 ^ nat (max 0 (u_pin_counter row - 1))\<rparr>
                 # post\<rparr>\<rparr>)"
proof -
  note q = sql_update_pincheck_hit [OF tab key row]
  show ?thesis
    by (simp add: ReservePincheck_def db_run_ok ok q MAX_PIN_TRIES_def BACKOFF_START_def max_def)
qed

lemma sql_update_pincheck_miss:
  assumes "\<forall>r\<in>set (users t). \<not> (u_id r = uid \<and> u_pin_block_date r \<le> p5 \<and> u_coredata r \<noteq> None)"
  shows "sql_update_pincheck p1 p2 p3 uid p5 t = Inr (t, [])"
proof -
  let ?hit = "\<lambda>r. u_id r = uid \<and> u_pin_block_date r \<le> p5 \<and> u_coredata r \<noteq> None"
  have m: "map (\<lambda>r. if ?hit r then f r else r) (users t) = users t" for f
    using assms by (intro map_idI) auto
  have f: "filter ?hit (users t) = []"
    using assms by (simp add: filter_empty_conv)
  show ?thesis
    unfolding sql_update_pincheck_def Let_def m f by simp
qed

lemma ReservePincheck_blocked:
  assumes tab: "users (committed w) = pre @ row # post"
    and key: "\<forall>r\<in>set pre \<union> set post. u_id r \<noteq> uid"
    and row: "u_id row = uid" "u_coredata row \<noteq> None" "u_pin_block_date row > now2"
    and ok: "faults w = []"
  shows "ReservePincheck uid now1 now2 now3 w =
           ((False, 0, max 0 (u_pin_block_date row - now3), None), w)"
proof -
  have miss: "\<forall>r\<in>set (users (committed w)).
                \<not> (u_id r = uid \<and> u_pin_block_date r \<le> now2 \<and> u_coredata r \<noteq> None)"
    using tab key row by auto
  note q = sql_update_pincheck_miss [OF miss]
  let ?sel = "\<lambda>r. u_id r = uid \<and> u_coredata r \<noteq> None"
  have "\<forall>r\<in>set pre \<union> set post. \<not> ?sel r" using key by blast
  moreover have "?sel row" using row by simp
  ultimately have f: "filter ?sel (pre @ row # post) = [row]" by (rule filter_unique)
  have s: "sql_select_pin_block_date uid (committed w) = Inr (committed w, [u_pin_block_date row])"
    unfolding sql_select_pin_block_date_def tab f by simp
  show ?thesis
    by (simp add: ReservePincheck_def db_run_ok ok q s max_def)
qed

lemma ReservePincheck_deleted:
  assumes del: "\<forall>r\<in>set (users (committed w)). u_id r = uid \<longrightarrow> u_coredata r = None"
    and ok: "faults w = []"
  shows "ReservePincheck uid now1 now2 now3 w = ((False, 0, 0, Some ErrUserNotFound), w)"
proof -
  have miss: "\<forall>r\<in>set (users (committed w)).
                \<not> (u_id r = uid \<and> u_pin_block_date r \<le> now2 \<and> u_coredata r \<noteq> None)"
    using del by auto
  note q = sql_update_pincheck_miss [OF miss]
  have f: "filter (\<lambda>r. u_id r = uid \<and> u_coredata r \<noteq> None) (users (committed w)) = []"
    using del by (auto simp: filter_empty_conv)
  have s: "sql_select_pin_block_date uid (committed w) = Inr (committed w, [])"
    unfolding sql_select_pin_block_date_def f by simp
  show ?thesis
    by (simp add: ReservePincheck_def db_run_ok ok q s)
qed

lemma ClearPincheck_ok:
  assumes tab: "users (committed w) = pre @ row # post"
    and key: "\<forall>r\<in>set pre \<union> set post. u_id r \<noteq> uid"
    and row: "u_id row = uid"
    and ok: "faults w = []"
  shows "ClearPincheck uid w =
           (None, w\<lparr>committed := (committed w)\<lparr>users := pre @
                     row\<lparr>u_pin_counter := 0, u_pin_block_date := 0\<rparr> # post\<rparr>\<rparr>)"
proof -
  let ?hit = "\<lambda>r. u_id r = uid"
  have nohit: "\<forall>r\<in>set pre \<union> set post. \<not> ?hit r" using key by blast
  note m = map_upd_unique [where P = ?hit, OF nohit row]
  note f = filter_unique [where P = ?hit, OF nohit row]
  have q: "sql_clear_pincheck uid (committed w) =
             Inr ((committed w)\<lparr>users := pre @ row\<lparr>u_pin_counter := 0, u_pin_block_date := 0\<rparr> # post\<rparr>, 1)"
    unfolding sql_clear_pincheck_def tab m f by simp
  show ?thesis
    by (simp add: ClearPincheck_def db_run_ok ok q)
qed


text \<open>
  Claim C1. \<^verbatim>\<open>ReservePincheck\<close> on a user whose row exists (once, \<^verbatim>\<open>id\<close> being the key),
  is not soft-deleted and is not blocked at \<open>now\<close>, all three clock readings being
  \<open>now\<close> and the statement not failing: the one \<^verbatim>\<open>UPDATE\<close> sets \<^verbatim>\<open>pin_counter\<close> to
  \<open>c + 1\<close> and \<^verbatim>\<open>pin_block_date\<close> to \<open>(now - 1 - 30) + 30 * 2 ^ max 0 (c - 1)\<close>, with
  \<open>c\<close> the counter before the call, and the call returns \<^verbatim>\<open>allowed = true\<close>,
  \<open>max 0 (3 - (c + 1))\<close> tries and a wait of \<open>max 0 (pin_block_date - now)\<close>.
  From counter 0, three calls at 1000 return \<open>(true, 2, 0)\<close>, \<open>(true, 1, 0)\<close> and
  \<open>(true, 0, 29)\<close>, a fourth at 1005 returns \<open>(false, 0, 24)\<close>, and after
  \<^verbatim>\<open>ClearPincheck\<close> a call at 1040 returns \<open>(true, 2, 0)\<close>. The waits 29 and 24 are the
  spec's "about 30" and "about 25": the block date is one second short of \<open>now + 30\<close>.
\<close>

theorem C1_ReservePincheck_reserves:
  assumes tab: "users (committed w) = pre @ row # post"
    and key: "\<forall>r\<in>set pre \<union> set post. u_id r \<noteq> uid"
    and row: "u_id row = uid" "u_coredata row \<noteq> None"
    and ok: "faults w = []"
  shows "(u_pin_block_date row \<le> now \<longrightarrow>
            (let c = u_pin_counter row;
                 block_date = (now - 1 - 30) + 30 * 2 ^ nat (max 0 (c - 1))
             in ReservePincheck uid now now now w =
                  ((True, max 0 (3 - (c + 1)), max 0 (block_date - now), None),
                   w\<lparr>committed := (committed w)\<lparr>users :=
                        pre @ row\<lparr>u_pin_counter := c + 1, u_pin_block_date := block_date\<rparr>
                          # post\<rparr>\<rparr>))) \<and>
         (u_pin_counter row = 0 \<and> u_pin_block_date row \<le> 1000 \<longrightarrow>
            (let (r1, w1) = ReservePincheck uid 1000 1000 1000 w;
                 (r2, w2) = ReservePincheck uid 1000 1000 1000 w1;
                 (r3, w3) = ReservePincheck uid 1000 1000 1000 w2;
                 (r4, w4) = ReservePincheck uid 1005 1005 1005 w3;
                 (e5, w5) = ClearPincheck uid w4;
                 (r6, w6) = ReservePincheck uid 1040 1040 1040 w5
             in r1 = (True, 2, 0, None) \<and> r2 = (True, 1, 0, None) \<and>
                r3 = (True, 0, 29, None) \<and> r4 = (False, 0, 24, None) \<and>
                e5 = None \<and> r6 = (True, 2, 0, None)))"
proof (intro conjI impI)
  assume "u_pin_block_date row \<le> now"
  then show "let c = u_pin_counter row;
                 block_date = (now - 1 - 30) + 30 * 2 ^ nat (max 0 (c - 1))
             in ReservePincheck uid now now now w =
                  ((True, max 0 (3 - (c + 1)), max 0 (block_date - now), None),
                   w\<lparr>committed := (committed w)\<lparr>users :=
                        pre @ row\<lparr>u_pin_counter := c + 1, u_pin_block_date := block_date\<rparr>
                          # post\<rparr>\<rparr>)"
    unfolding Let_def by (rule ReservePincheck_allowed [OF tab key row _ ok])
next
  assume fresh: "u_pin_counter row = 0 \<and> u_pin_block_date row \<le> 1000"
  define row1 where "row1 = row\<lparr>u_pin_counter := 1, u_pin_block_date := 999\<rparr>"
  define row2 where "row2 = row1\<lparr>u_pin_counter := 2, u_pin_block_date := 999\<rparr>"
  define row3 where "row3 = row2\<lparr>u_pin_counter := 3, u_pin_block_date := 1029\<rparr>"
  define row5 where "row5 = row3\<lparr>u_pin_counter := 0, u_pin_block_date := 0\<rparr>"
  define row6 where "row6 = row5\<lparr>u_pin_counter := 1, u_pin_block_date := 1039\<rparr>"
  define put where "put = (\<lambda>r. w\<lparr>committed := (committed w)\<lparr>users := pre @ r # post\<rparr>\<rparr>)"
  have tab': "users (committed (put r)) = pre @ r # post" and ok': "faults (put r) = []" for r
    using ok by (simp_all add: put_def)
  have put': "(put r)\<lparr>committed := (committed (put r))\<lparr>users := pre @ r' # post\<rparr>\<rparr> = put r'" for r r'
    by (simp add: put_def)
  have s1: "ReservePincheck uid 1000 1000 1000 w = ((True, 2, 0, None), put row1)"
    using ReservePincheck_allowed [OF tab key row _ ok, of 1000] fresh
    by (simp add: row1_def put_def)
  have s2: "ReservePincheck uid 1000 1000 1000 (put row1) = ((True, 1, 0, None), put row2)"
    using ReservePincheck_allowed [OF tab' key _ _ _ ok', of row1 1000] row
    by (simp add: row1_def row2_def put')
  have s3: "ReservePincheck uid 1000 1000 1000 (put row2) = ((True, 0, 29, None), put row3)"
    using ReservePincheck_allowed [OF tab' key _ _ _ ok', of row2 1000] row
    by (simp add: row1_def row2_def row3_def put')
  have s4: "ReservePincheck uid 1005 1005 1005 (put row3) = ((False, 0, 24, None), put row3)"
    using ReservePincheck_blocked [OF tab' key _ _ _ ok', of row3 1005 1005 1005] row
    by (simp add: row1_def row2_def row3_def)
  have s5: "ClearPincheck uid (put row3) = (None, put row5)"
    using ClearPincheck_ok [OF tab' key _ ok', of row3] row
    by (simp add: row1_def row2_def row3_def row5_def put')
  have s6: "ReservePincheck uid 1040 1040 1040 (put row5) = ((True, 2, 0, None), put row6)"
    using ReservePincheck_allowed [OF tab' key _ _ _ ok', of row5 1040] row
    by (simp add: row1_def row2_def row3_def row5_def row6_def put')
  show "let (r1, w1) = ReservePincheck uid 1000 1000 1000 w;
            (r2, w2) = ReservePincheck uid 1000 1000 1000 w1;
            (r3, w3) = ReservePincheck uid 1000 1000 1000 w2;
            (r4, w4) = ReservePincheck uid 1005 1005 1005 w3;
            (e5, w5) = ClearPincheck uid w4;
            (r6, w6) = ReservePincheck uid 1040 1040 1040 w5
        in r1 = (True, 2, 0, None) \<and> r2 = (True, 1, 0, None) \<and>
           r3 = (True, 0, 29, None) \<and> r4 = (False, 0, 24, None) \<and>
           e5 = None \<and> r6 = (True, 2, 0, None)"
    by (simp add: s1 s2 s3 s4 s5 s6)
qed

theorem C1_ReservePincheck_reserves_witness:
  "users (committed world_S1) = [] @ user_u # [] \<and>
   u_id user_u = 1 \<and> u_coredata user_u \<noteq> None \<and> faults world_S1 = [] \<and>
   u_pin_counter user_u = 0 \<and> u_pin_block_date user_u \<le> 1000 \<and>
   fst (ReservePincheck 1 1000 1000 1000 world_S1) = (True, 2, 0, None) \<and>
   users (committed (snd (ReservePincheck 1 1000 1000 1000 world_S1))) =
     [user_u\<lparr>u_pin_counter := 1, u_pin_block_date := 999\<rparr>] \<and>
   (let (r1, w1) = ReservePincheck 1 1000 1000 1000 world_S1;
        (r2, w2) = ReservePincheck 1 1000 1000 1000 w1;
        (r3, w3) = ReservePincheck 1 1000 1000 1000 w2;
        (r4, w4) = ReservePincheck 1 1005 1005 1005 w3;
        (e5, w5) = ClearPincheck 1 w4;
        (r6, w6) = ReservePincheck 1 1040 1040 1040 w5
    in r1 = (True, 2, 0, None) \<and> r2 = (True, 1, 0, None) \<and>
       r3 = (True, 0, 29, None) \<and> r4 = (False, 0, 24, None) \<and>
       e5 = None \<and> r6 = (True, 2, 0, None))"
proof -
  have tab: "users (committed world_S1) = [] @ user_u # []"
    by (simp add: world_S1_def world_of_def no_tables_def)
  have key: "\<forall>r\<in>set [] \<union> set []. u_id r \<noteq> (1::int)"
    by simp
  have row: "u_id user_u = 1" "u_coredata user_u \<noteq> None"
    by (simp_all add: user_u_def)
  have ok: "faults world_S1 = []"
    by (simp add: world_S1_def world_of_def)
  have fresh: "u_pin_counter user_u = 0 \<and> u_pin_block_date user_u \<le> 1000"
    by (simp add: user_u_def)
  note c1 = C1_ReservePincheck_reserves [OF tab key row ok, of 1000]
  have first: "ReservePincheck 1 1000 1000 1000 world_S1 =
                 ((True, 2, 0, None),
                  world_S1\<lparr>committed := (committed world_S1)\<lparr>users :=
                    [user_u\<lparr>u_pin_counter := 1, u_pin_block_date := 999\<rparr>]\<rparr>\<rparr>)"
    using c1 fresh by (simp add: Let_def)
  have scenario:
    "let (r1, w1) = ReservePincheck 1 1000 1000 1000 world_S1;
         (r2, w2) = ReservePincheck 1 1000 1000 1000 w1;
         (r3, w3) = ReservePincheck 1 1000 1000 1000 w2;
         (r4, w4) = ReservePincheck 1 1005 1005 1005 w3;
         (e5, w5) = ClearPincheck 1 w4;
         (r6, w6) = ReservePincheck 1 1040 1040 1040 w5
     in r1 = (True, 2, 0, None) \<and> r2 = (True, 1, 0, None) \<and>
        r3 = (True, 0, 29, None) \<and> r4 = (False, 0, 24, None) \<and>
        e5 = None \<and> r6 = (True, 2, 0, None)"
    using c1 fresh by blast
  show ?thesis
    using tab row ok fresh scenario by (simp add: first)
qed

text \<open>
  Claim C3, as the code has it. On a user whose row exists, the three clock readings
  being \<open>now\<close> and no statement failing: when the user is blocked at \<open>now\<close> and not
  soft-deleted, \<^verbatim>\<open>ReservePincheck\<close> changes nothing and returns
  \<open>(false, 0, max 0 (pin_block_date - now))\<close> without an error; when the user is
  soft-deleted, the second \<^verbatim>\<open>SELECT\<close> asks for \<^verbatim>\<open>coredata IS NOT NULL\<close> too, finds no
  row, and the call returns \<open>(false, 0, 0)\<close> with \<^verbatim>\<open>ErrUserNotFound\<close>.
\<close>

theorem C3_ReservePincheck_refuses:
  assumes tab: "users (committed w) = pre @ row # post"
    and key: "\<forall>r\<in>set pre \<union> set post. u_id r \<noteq> uid"
    and row: "u_id row = uid"
    and ok: "faults w = []"
  shows "(u_coredata row \<noteq> None \<and> u_pin_block_date row > now \<longrightarrow>
            ReservePincheck uid now now now w =
              ((False, 0, max 0 (u_pin_block_date row - now), None), w)) \<and>
         (u_coredata row = None \<longrightarrow>
            ReservePincheck uid now now now w = ((False, 0, 0, Some ErrUserNotFound), w))"
proof (intro conjI impI)
  assume "u_coredata row \<noteq> None \<and> u_pin_block_date row > now"
  then show "ReservePincheck uid now now now w =
               ((False, 0, max 0 (u_pin_block_date row - now), None), w)"
    using ReservePincheck_blocked [OF tab key row _ _ ok] by blast
next
  assume "u_coredata row = None"
  then have "\<forall>r\<in>set (users (committed w)). u_id r = uid \<longrightarrow> u_coredata r = None"
    using tab key by auto
  then show "ReservePincheck uid now now now w = ((False, 0, 0, Some ErrUserNotFound), w)"
    using ok by (rule ReservePincheck_deleted)
qed

theorem C3_ReservePincheck_refuses_witness:
  "ReservePincheck 1 1005 1005 1005 world_blocked = ((False, 0, 24, None), world_blocked) \<and>
   ReservePincheck 1 1000 1000 1000 world_deleted =
     ((False, 0, 0, Some ErrUserNotFound), world_deleted)"
proof -
  have b: "users (committed world_blocked) = [] @ user_blocked # []"
    and d: "users (committed world_deleted) = [] @ user_deleted # []"
    and ok: "faults world_blocked = []" "faults world_deleted = []"
    by (simp_all add: world_blocked_def world_deleted_def world_of_def no_tables_def)
  have key: "\<forall>r\<in>set [] \<union> set []. u_id r \<noteq> (1::int)"
    by simp
  have rows: "u_id user_blocked = 1" "u_id user_deleted = 1"
    "u_coredata user_blocked \<noteq> None \<and> u_pin_block_date user_blocked > 1005"
    "u_coredata user_deleted = None" "u_pin_block_date user_blocked = 1029"
    by (simp_all add: user_blocked_def user_deleted_def user_u_def)
  show ?thesis
    using C3_ReservePincheck_refuses [OF b key rows(1) ok(1), of 1005]
      C3_ReservePincheck_refuses [OF d key rows(2) ok(2), of 1000] rows(3,4,5)
    by simp
qed

text \<open>
  The claim as it was stated fails for a soft-deleted user: with a block date of 2000 at
  time 1000 the call does not return \<open>(false, 0, 1000)\<close> without an error.
\<close>

theorem C3_soft_deleted_counterexample:
  "u_coredata user_deleted = None \<and> u_pin_block_date user_deleted = 2000 \<and>
   fst (ReservePincheck 1 1000 1000 1000 world_deleted) = (False, 0, 0, Some ErrUserNotFound) \<and>
   fst (ReservePincheck 1 1000 1000 1000 world_deleted) \<noteq> (False, 0, max 0 (2000 - 1000), None)"
  by (simp add: ReservePincheck_def db_run_def next_fault_def sql_update_pincheck_def
      sql_select_pin_block_date_def world_deleted_def world_of_def no_tables_def
      user_deleted_def user_u_def MAX_PIN_TRIES_def BACKOFF_START_def)


section \<open>Soft deletion and the lookups by username\<close>

lemma db_run_Inr:
  assumes "db_run q w = (Inr a, w1)"
  shows "\<exists>t'. q (committed w) = Inr (t', a) \<and> committed w1 = t' \<and> pending w1 = pending w \<and>
              logged w1 = logged w \<and> faults w1 = tl (faults w)"
  using assms
  by (auto simp: db_run_def next_fault_def split: list.splits bool.splits sum.splits prod.splits)

lemma RemoveUser_success:
  assumes "RemoveUser uid delay now w = (None, w1)"
  shows "users (committed w1) =
           map (\<lambda>r. if u_id r = uid \<and> u_coredata r \<noteq> None
                     then r\<lparr>u_coredata := None, u_delete_on := Some (Unix (now + delay))\<rparr>
                     else r) (users (committed w))"
    and "length (filter (\<lambda>r. u_id r = uid \<and> u_coredata r \<noteq> None) (users (committed w))) = 1"
proof -
  let ?q = "sql_remove_user uid (Unix (now + delay))"
  obtain r w' where run: "db_run ?q w = (r, w')"
    by (cases "db_run ?q w") auto
  from assms run have r: "r = Inr 1" and w': "w' = w1"
    by (auto simp: RemoveUser_def ExecUser_def ExecCount_def split: sum.splits if_splits)
  from db_run_Inr [of ?q w 1 w1] run r w' have q: "?q (committed w) = Inr (committed w1, 1)"
    by auto
  have "users (fst (projr (?q (committed w)))) =
           map (\<lambda>r. if u_id r = uid \<and> u_coredata r \<noteq> None
                     then r\<lparr>u_coredata := None, u_delete_on := Some (Unix (now + delay))\<rparr>
                     else r) (users (committed w))"
    by (simp add: sql_remove_user_def Let_def)
  then show "users (committed w1) =
           map (\<lambda>r. if u_id r = uid \<and> u_coredata r \<noteq> None
                     then r\<lparr>u_coredata := None, u_delete_on := Some (Unix (now + delay))\<rparr>
                     else r) (users (committed w))"
    unfolding q by simp
  have "snd (projr (?q (committed w))) =
          int (length (filter (\<lambda>r. u_id r = uid \<and> u_coredata r \<noteq> None) (users (committed w))))"
    by (simp add: sql_remove_user_def Let_def)
  then show "length (filter (\<lambda>r. u_id r = uid \<and> u_coredata r \<noteq> None) (users (committed w))) = 1"
    unfolding q by simp
qed


text \<open>
  Claim C4, as the code has it. After a \<^verbatim>\<open>RemoveUser\<close> that succeeded, for the username
  of the removed account (\<^verbatim>\<open>username\<close> and \<^verbatim>\<open>id\<close> name the same rows, both being keys)
  and lookups that do not fail: \<^verbatim>\<open>User\<close> of the keyshare store returns
  \<^verbatim>\<open>ErrUserNotFound\<close>, while \<^verbatim>\<open>UserID\<close> of the MyIRMA store, whose query does not look
  at \<^verbatim>\<open>coredata\<close>, still returns the id of the soft-deleted row.
\<close>

theorem C4_lookup_after_RemoveUser:
  assumes removed: "RemoveUser uid delay now w = (None, w1)"
    and name: "\<forall>r\<in>set (users (committed w)). u_username r = name \<longleftrightarrow> u_id r = uid"
    and ok: "faults w1 = []"
  shows "User len name w1 = (Inl ErrUserNotFound, w1) \<and> UserID name w1 = (Inr uid, w1)"
proof
  let ?hit = "\<lambda>r. u_id r = uid \<and> u_coredata r \<noteq> None"
  let ?upd = "\<lambda>r. if ?hit r then r\<lparr>u_coredata := None, u_delete_on := Some (Unix (now + delay))\<rparr> else r"
  note tab = RemoveUser_success(1) [OF removed]
  note one = RemoveUser_success(2) [OF removed]
  have upd_name: "u_username (?upd r) = u_username r" and upd_id: "u_id (?upd r) = u_id r" for r
    by simp_all
  have upd_core: "u_id r = uid \<Longrightarrow> u_coredata (?upd r) = None" for r
    by simp
  have gone: "\<not> (u_username r' = name \<and> u_coredata r' \<noteq> None)"
    if "r' \<in> set (users (committed w1))" for r'
  proof -
    from that obtain r where r: "r \<in> set (users (committed w))" and r': "r' = ?upd r"
      unfolding tab by auto
    show ?thesis
    proof (cases "u_username r = name")
      case True
      with name r have "u_id r = uid" by blast
      then show ?thesis unfolding r' by simp
    next
      case False
      then show ?thesis unfolding r' by simp
    qed
  qed
  then have none: "filter (\<lambda>r. u_username r = name \<and> u_coredata r \<noteq> None) (users (committed w1)) = []"
    unfolding filter_empty_conv by blast
  have sel: "sql_select_user name (committed w1) = Inr (committed w1, [])"
    unfolding sql_select_user_def none ..
  show "User len name w1 = (Inl ErrUserNotFound, w1)"
    by (simp add: User_def db_run_ok ok sel)
  have "filter ?hit (users (committed w)) \<noteq> []"
    using one by auto
  then obtain r where r: "r \<in> set (users (committed w))" and hit: "?hit r"
    unfolding filter_empty_conv by blast
  from r have in1: "?upd r \<in> set (users (committed w1))"
    unfolding tab set_map by (rule imageI)
  from r hit name have "u_username r = name" by blast
  then have "u_username (?upd r) = name" unfolding upd_name .
  with in1 have ne: "filter (\<lambda>r. u_username r = name) (users (committed w1)) \<noteq> []"
    unfolding filter_empty_conv by blast
  have all: "u_id r' = uid"
    if "r' \<in> set (filter (\<lambda>r. u_username r = name) (users (committed w1)))" for r'
  proof -
    from that have mem: "r' \<in> set (users (committed w1))" and nm: "u_username r' = name"
      by simp_all
    from mem obtain r where r: "r \<in> set (users (committed w))" and r': "r' = ?upd r"
      unfolding tab by auto
    from nm have "u_username r = name" unfolding r' upd_name .
    with name r have "u_id r = uid" by blast
    then show ?thesis unfolding r' upd_id .
  qed
  obtain y ys where cons: "filter (\<lambda>r. u_username r = name) (users (committed w1)) = y # ys"
    using ne by (cases "filter (\<lambda>r. u_username r = name) (users (committed w1))") auto
  have "u_id y = uid"
    using all [of y] cons by simp
  then show "UserID name w1 = (Inr uid, w1)"
    by (simp add: UserID_def QueryUser_def QueryScan_def db_run_ok ok sql_select_user_id_def cons)
qed


lemma RemoveUser_world_S1:
  "RemoveUser 1 (604800 * Second) (1000 * Second) world_S1 = (None, world_removed)"
  by (simp add: world_removed_def RemoveUser_def ExecUser_def ExecCount_def db_run_def
      next_fault_def sql_remove_user_def Unix_def Second_def world_S1_def world_of_def
      no_tables_def user_u_def)

theorem C4_lookup_after_RemoveUser_witness:
  "RemoveUser 1 (604800 * Second) (1000 * Second) world_S1 = (None, world_removed) \<and>
   faults world_removed = [] \<and>
   fst (User 6 ''u'' world_S1) =
     Inr \<lparr>Username = ''u'', Language = ''en'', Coredata = ''secret'', row_id = 1\<rparr> \<and>
   User 6 ''u'' world_removed = (Inl ErrUserNotFound, world_removed) \<and>
   UserID ''u'' world_removed = (Inr 1, world_removed)"
proof -
  have name: "\<forall>r\<in>set (users (committed world_S1)). u_username r = ''u'' \<longleftrightarrow> u_id r = 1"
    by (simp add: world_S1_def world_of_def no_tables_def user_u_def)
  have ok: "faults world_removed = []"
    by (simp add: world_removed_def world_of_def)
  have before: "fst (User 6 ''u'' world_S1) =
     Inr \<lparr>Username = ''u'', Language = ''en'', Coredata = ''secret'', row_id = 1\<rparr>"
    by (simp add: User_def db_run_def next_fault_def sql_select_user_def
        world_S1_def world_of_def no_tables_def user_u_def)
  show ?thesis
    using C4_lookup_after_RemoveUser [OF RemoveUser_world_S1 name ok, of 6] before ok
      RemoveUser_world_S1
    by simp
qed

text \<open>
  The claim as it was stated fails for \<^verbatim>\<open>UserID\<close>: after the soft deletion of user
  \<open>u\<close> it returns the id 1 and not the user-not-found error.
\<close>

theorem C4_UserID_counterexample:
  "fst (RemoveUser 1 (604800 * Second) (1000 * Second) world_S1) = None \<and>
   map u_coredata (users (committed (snd (RemoveUser 1 (604800 * Second) (1000 * Second) world_S1))))
     = [None] \<and>
   fst (UserID ''u'' (snd (RemoveUser 1 (604800 * Second) (1000 * Second) world_S1))) = Inr 1 \<and>
   fst (UserID ''u'' (snd (RemoveUser 1 (604800 * Second) (1000 * Second) world_S1)))
     \<noteq> Inl keyshare_ErrUserNotFound"
  by (simp add: RemoveUser_world_S1 world_removed_def UserID_def QueryUser_def QueryScan_def
      db_run_def next_fault_def sql_select_user_id_def world_of_def no_tables_def user_u_def)

section \<open>E-mail addresses\<close>

lemma filter_single:
  assumes "filter P (pre @ row # post) = [row]"
  shows "P row" and "\<forall>r\<in>set pre \<union> set post. \<not> P r"
proof -
  have "row \<in> set (filter P (pre @ row # post))"
    unfolding assms by simp
  then have "row \<in> {x \<in> set (pre @ row # post). P x}"
    by (simp only: set_filter)
  then show p: "P row" by blast
  from assms p have "filter P pre @ row # filter P post = [] @ [row]"
    by simp
  then have "filter P pre = [] \<and> filter P post = []"
    by (simp add: append_eq_Cons_conv)
  then show "\<forall>r\<in>set pre \<union> set post. \<not> P r"
    by (auto simp: filter_empty_conv)
qed

lemma AddEmail_restore:
  assumes tab: "emails (committed w) = pre @ row # post"
    and key: "\<forall>r\<in>set pre \<union> set post. \<not> (e_user_id r = uid \<and> e_email r = email)"
    and row: "e_user_id row = uid \<and> e_email row = email"
    and ok: "faults w = []"
  shows "AddEmail uid email w =
           (None, w\<lparr>committed := (committed w)\<lparr>emails := pre @ row\<lparr>e_delete_on := None\<rparr> # post\<rparr>\<rparr>)"
proof -
  let ?hit = "\<lambda>r. e_user_id r = uid \<and> e_email r = email"
  note m = map_upd_unique [where P = ?hit, OF key row]
  note f = filter_unique [where P = ?hit, OF key row]
  have q: "sql_restore_email uid email (committed w) =
             Inr ((committed w)\<lparr>emails := pre @ row\<lparr>e_delete_on := None\<rparr> # post\<rparr>, 1)"
    unfolding sql_restore_email_def Let_def tab m f by simp
  show ?thesis
    by (simp add: AddEmail_def ExecCount_def db_run_ok ok q)
qed

lemma AddEmail_insert:
  assumes none: "\<forall>r\<in>set (emails (committed w)). \<not> (e_user_id r = uid \<and> e_email r = email)"
    and ok: "faults w = []"
  shows "AddEmail uid email w =
           (None, w\<lparr>committed := (committed w)\<lparr>emails := emails (committed w) @
                      [\<lparr>e_user_id = uid, e_email = email, e_delete_on = None\<rparr>]\<rparr>\<rparr>)"
proof -
  let ?hit = "\<lambda>r. e_user_id r = uid \<and> e_email r = email"
  have m: "map (\<lambda>r. if ?hit r then f r else r) (emails (committed w)) = emails (committed w)" for f
    using none by (intro map_idI) auto
  have f: "filter ?hit (emails (committed w)) = []"
    using none by (simp add: filter_empty_conv)
  have q: "sql_restore_email uid email (committed w) = Inr (committed w, 0)"
    unfolding sql_restore_email_def Let_def m f by simp
  show ?thesis
    by (simp add: AddEmail_def ExecCount_def db_run_ok ok q sql_insert_email_def)
qed

lemma RemoveEmail_active:
  assumes tab: "emails (committed w) = pre @ row # post"
    and key: "\<forall>r\<in>set pre \<union> set post. \<not> (e_user_id r = uid \<and> e_email r = email)"
    and row: "e_user_id row = uid \<and> e_email row = email" "e_delete_on row = None"
    and ok: "faults w = []"
  shows "RemoveEmail uid email delay now w =
           (None, w\<lparr>committed := (committed w)\<lparr>emails :=
                      pre @ row\<lparr>e_delete_on := Some (Unix (now + delay))\<rparr> # post\<rparr>\<rparr>)"
proof -
  let ?hit = "\<lambda>r. e_user_id r = uid \<and> e_email r = email \<and> e_delete_on r = None"
  have nohit: "\<forall>r\<in>set pre \<union> set post. \<not> ?hit r" using key by blast
  have hit: "?hit row" using row by simp
  note m = map_upd_unique [where P = ?hit, OF nohit hit]
  note f = filter_unique [where P = ?hit, OF nohit hit]
  have q: "sql_remove_email uid email (Unix (now + delay)) (committed w) =
             Inr ((committed w)\<lparr>emails := pre @ row\<lparr>e_delete_on := Some (Unix (now + delay))\<rparr> # post\<rparr>, 1)"
    unfolding sql_remove_email_def Let_def tab m f by simp
  show ?thesis
    by (simp add: RemoveEmail_def ExecCount_def db_run_ok ok q)
qed

text \<open>
  Claim C7. When no statement fails: \<^verbatim>\<open>AddEmail(u, e)\<close> with no row for \<open>(u, e)\<close> inserts
  one, and a second \<^verbatim>\<open>AddEmail(u, e)\<close> then succeeds and changes nothing; with exactly
  one row for \<open>(u, e)\<close>, \<^verbatim>\<open>AddEmail(u, e)\<close> succeeds, clears \<^verbatim>\<open>delete_on\<close> on that row
  and leaves it the only row for \<open>(u, e)\<close>; when that row is active the call changes
  nothing, and after \<^verbatim>\<open>RemoveEmail(u, e, delay)\<close> has set its \<^verbatim>\<open>delete_on\<close>,
  \<^verbatim>\<open>AddEmail(u, e)\<close> gives back the tables as they were before the removal.
\<close>

theorem C7_AddEmail_restores:
  assumes ok: "faults w = []"
  shows "(email_rows uid email w = [] \<longrightarrow>
            (case AddEmail uid email w of
               (e1, w1) \<Rightarrow> e1 = None \<and>
                 email_rows uid email w1 = [\<lparr>e_user_id = uid, e_email = email, e_delete_on = None\<rparr>] \<and>
                 AddEmail uid email w1 = (None, w1))) \<and>
         (emails (committed w) = pre @ row # post \<and> email_rows uid email w = [row] \<longrightarrow>
            (case AddEmail uid email w of
               (e1, w1) \<Rightarrow> e1 = None \<and>
                 emails (committed w1) = pre @ row\<lparr>e_delete_on := None\<rparr> # post \<and>
                 email_rows uid email w1 = [row\<lparr>e_delete_on := None\<rparr>])) \<and>
         (emails (committed w) = pre @ row # post \<and> email_rows uid email w = [row] \<and>
          e_delete_on row = None \<longrightarrow>
            AddEmail uid email w = (None, w) \<and>
            (case RemoveEmail uid email delay now w of
               (e1, w1) \<Rightarrow> e1 = None \<and>
                 email_rows uid email w1 = [row\<lparr>e_delete_on := Some (Unix (now + delay))\<rparr>] \<and>
                 AddEmail uid email w1 = (None, w)))"
proof (intro conjI impI)
  assume none: "email_rows uid email w = []"
  then have no: "\<forall>r\<in>set (emails (committed w)). \<not> (e_user_id r = uid \<and> e_email r = email)"
    by (simp add: email_rows_def filter_empty_conv)
  define new where "new = \<lparr>e_user_id = uid, e_email = email, e_delete_on = None\<rparr>"
  define w1 where
    "w1 = w\<lparr>committed := (committed w)\<lparr>emails := emails (committed w) @ [new]\<rparr>\<rparr>"
  have first: "AddEmail uid email w = (None, w1)"
    unfolding w1_def new_def using no ok by (rule AddEmail_insert)
  have tab1: "emails (committed w1) = emails (committed w) @ new # []"
    and ok1: "faults w1 = []"
    using ok by (simp_all add: w1_def)
  have key1: "\<forall>r\<in>set (emails (committed w)) \<union> set []. \<not> (e_user_id r = uid \<and> e_email r = email)"
    using no by simp
  have row1: "e_user_id new = uid \<and> e_email new = email"
    by (simp add: new_def)
  have rows1: "email_rows uid email w1 = [new]"
    unfolding email_rows_def tab1 using key1 row1 by (rule filter_unique)
  have "AddEmail uid email w1 =
          (None, w1\<lparr>committed := (committed w1)\<lparr>emails :=
                     emails (committed w) @ new\<lparr>e_delete_on := None\<rparr> # []\<rparr>\<rparr>)"
    using tab1 key1 row1 ok1 by (rule AddEmail_restore)
  then have second: "AddEmail uid email w1 = (None, w1)"
    by (simp add: w1_def new_def)
  show "case AddEmail uid email w of
          (e1, w1) \<Rightarrow> e1 = None \<and>
            email_rows uid email w1 = [\<lparr>e_user_id = uid, e_email = email, e_delete_on = None\<rparr>] \<and>
            AddEmail uid email w1 = (None, w1)"
    using rows1 second by (simp add: first new_def)
next
  assume "emails (committed w) = pre @ row # post \<and> email_rows uid email w = [row]"
  then have tab: "emails (committed w) = pre @ row # post"
    and rows: "email_rows uid email w = [row]"
    by blast+
  have single: "filter (\<lambda>r. e_user_id r = uid \<and> e_email r = email) (pre @ row # post) = [row]"
    using rows unfolding email_rows_def tab .
  note row = filter_single(1) [OF single]
  note key = filter_single(2) [OF single]
  define w1 where
    "w1 = w\<lparr>committed := (committed w)\<lparr>emails := pre @ row\<lparr>e_delete_on := None\<rparr> # post\<rparr>\<rparr>"
  have first: "AddEmail uid email w = (None, w1)"
    unfolding w1_def using tab key row ok by (rule AddEmail_restore)
  have tab1: "emails (committed w1) = pre @ row\<lparr>e_delete_on := None\<rparr> # post"
    by (simp add: w1_def)
  have row1: "e_user_id (row\<lparr>e_delete_on := None\<rparr>) = uid \<and> e_email (row\<lparr>e_delete_on := None\<rparr>) = email"
    using row by simp
  have rows1: "email_rows uid email w1 = [row\<lparr>e_delete_on := None\<rparr>]"
    unfolding email_rows_def tab1 using key row1 by (rule filter_unique)
  show "case AddEmail uid email w of
          (e1, w1) \<Rightarrow> e1 = None \<and>
            emails (committed w1) = pre @ row\<lparr>e_delete_on := None\<rparr> # post \<and>
            email_rows uid email w1 = [row\<lparr>e_delete_on := None\<rparr>]"
    using tab1 rows1 by (simp add: first)
next
  assume a: "emails (committed w) = pre @ row # post \<and> email_rows uid email w = [row] \<and>
             e_delete_on row = None"
  then have tab: "emails (committed w) = pre @ row # post"
    and rows: "email_rows uid email w = [row]"
    and active: "e_delete_on row = None"
    by blast+
  have single: "filter (\<lambda>r. e_user_id r = uid \<and> e_email r = email) (pre @ row # post) = [row]"
    using rows unfolding email_rows_def tab .
  note row = filter_single(1) [OF single]
  note key = filter_single(2) [OF single]
  have same: "row\<lparr>e_delete_on := None\<rparr> = row"
    using active by simp
  have unchanged: "w\<lparr>committed := (committed w)\<lparr>emails := pre @ row # post\<rparr>\<rparr> = w"
    using tab by simp
  show "AddEmail uid email w = (None, w)"
    using AddEmail_restore [OF tab key row ok] by (simp add: same unchanged)
  define gone where "gone = row\<lparr>e_delete_on := Some (Unix (now + delay))\<rparr>"
  define w1 where "w1 = w\<lparr>committed := (committed w)\<lparr>emails := pre @ gone # post\<rparr>\<rparr>"
  have removed: "RemoveEmail uid email delay now w = (None, w1)"
    unfolding w1_def gone_def using tab key row active ok by (rule RemoveEmail_active)
  have tab1: "emails (committed w1) = pre @ gone # post" and ok1: "faults w1 = []"
    using ok by (simp_all add: w1_def)
  have row1: "e_user_id gone = uid \<and> e_email gone = email"
    using row by (simp add: gone_def)
  have rows1: "email_rows uid email w1 = [gone]"
    unfolding email_rows_def tab1 using key row1 by (rule filter_unique)
  have "AddEmail uid email w1 =
          (None, w1\<lparr>committed := (committed w1)\<lparr>emails := pre @ gone\<lparr>e_delete_on := None\<rparr> # post\<rparr>\<rparr>)"
    using tab1 key row1 ok1 by (rule AddEmail_restore)
  then have restored: "AddEmail uid email w1 = (None, w)"
    by (simp add: w1_def gone_def same unchanged)
  show "case RemoveEmail uid email delay now w of
          (e1, w1) \<Rightarrow> e1 = None \<and>
            email_rows uid email w1 = [row\<lparr>e_delete_on := Some (Unix (now + delay))\<rparr>] \<and>
            AddEmail uid email w1 = (None, w)"
    using rows1 restored by (simp add: removed gone_def)
qed


theorem C7_AddEmail_restores_witness:
  "faults world_S1 = [] \<and> email_rows 1 ''e@x'' world_S1 = [] \<and>
   AddEmail 1 ''e@x'' world_S1 = (None, world_S4) \<and>
   faults world_S4 = [] \<and> emails (committed world_S4) = [] @ email_ex # [] \<and>
   email_rows 1 ''e@x'' world_S4 = [email_ex] \<and> e_delete_on email_ex = None \<and>
   AddEmail 1 ''e@x'' world_S4 = (None, world_S4) \<and>
   fst (RemoveEmail 1 ''e@x'' (86400 * Second) (1000 * Second) world_S4) = None \<and>
   email_rows 1 ''e@x'' (snd (RemoveEmail 1 ''e@x'' (86400 * Second) (1000 * Second) world_S4)) =
     [email_ex\<lparr>e_delete_on := Some 87400\<rparr>] \<and>
   AddEmail 1 ''e@x'' (snd (RemoveEmail 1 ''e@x'' (86400 * Second) (1000 * Second) world_S4)) =
     (None, world_S4)"
proof -
  have ok1: "faults world_S1 = []" and ok4: "faults world_S4 = []"
    by (simp_all add: world_S1_def world_S4_def world_of_def)
  have none: "email_rows 1 ''e@x'' world_S1 = []"
    by (simp add: email_rows_def world_S1_def world_of_def no_tables_def)
  have tab: "emails (committed world_S4) = [] @ email_ex # []"
    by (simp add: world_S4_def world_of_def no_tables_def)
  have rows: "email_rows 1 ''e@x'' world_S4 = [email_ex]"
    by (simp add: email_rows_def tab) (simp add: email_ex_def)
  have active: "e_delete_on email_ex = None"
    by (simp add: email_ex_def)
  have "fst (AddEmail 1 ''e@x'' world_S1) = None \<and>
        email_rows 1 ''e@x'' (snd (AddEmail 1 ''e@x'' world_S1)) = [email_ex]"
    using C7_AddEmail_restores [OF ok1, where uid = 1 and email = "''e@x''"] none
    by (simp add: case_prod_beta email_ex_def)
  moreover have "snd (AddEmail 1 ''e@x'' world_S1) = world_S4"
    by (simp add: AddEmail_def ExecCount_def db_run_def next_fault_def sql_restore_email_def
        sql_insert_email_def world_S1_def world_S4_def world_of_def no_tables_def email_ex_def)
  ultimately have first: "AddEmail 1 ''e@x'' world_S1 = (None, world_S4)"
    by (simp add: prod_eq_iff)
  have "AddEmail 1 ''e@x'' world_S4 = (None, world_S4) \<and>
        fst (RemoveEmail 1 ''e@x'' (86400 * Second) (1000 * Second) world_S4) = None \<and>
        email_rows 1 ''e@x'' (snd (RemoveEmail 1 ''e@x'' (86400 * Second) (1000 * Second) world_S4)) =
          [email_ex\<lparr>e_delete_on := Some (Unix (1000 * Second + 86400 * Second))\<rparr>] \<and>
        AddEmail 1 ''e@x'' (snd (RemoveEmail 1 ''e@x'' (86400 * Second) (1000 * Second) world_S4)) =
          (None, world_S4)"
    using C7_AddEmail_restores [OF ok4, where uid = 1 and email = "''e@x''" and pre = "[]"
        and row = email_ex and post = "[]" and delay = "86400 * Second" and now = "1000 * Second"]
      tab rows active
    by (simp only: case_prod_beta simp_thms)
  moreover have "Unix (1000 * Second + 86400 * Second) = 87400"
    by (simp add: Unix_def Second_def)
  ultimately show ?thesis
    using ok1 ok4 none tab rows active first by simp
qed

section \<open>Tokens\<close>

text \<open>
  Claim C8. In \<^verbatim>\<open>VerifyEmailToken\<close>, once the token has been found and \<^verbatim>\<open>AddEmail\<close> has
  succeeded: when the \<^verbatim>\<open>DELETE\<close> of the token returns an error, or affects a number of
  rows other than 1, the call logs that error (for the count, the \<^verbatim>\<open>Errorf\<close> with the
  count) and returns the user id with no error.
\<close>

theorem C8_VerifyEmailToken_delete_only_logged:
  assumes sel: "QueryScan tx (sql_select_verification_token tok now) w = (Inr (uid, email), w1)"
    and add: "AddEmail uid email w1 = (None, w2)"
    and del: "ExecCount tx (sql_delete_verification_token tok) w2 = (res, w3)"
  shows "(\<forall>err. res = Inl err \<longrightarrow>
            VerifyEmailToken tx tok now w = (Inr uid, w3\<lparr>logged := logged w3 @ [err]\<rparr>)) \<and>
         (\<forall>aff. res = Inr aff \<and> aff \<noteq> 1 \<longrightarrow>
            VerifyEmailToken tx tok now w =
              (Inr uid, w3\<lparr>logged := logged w3 @
                 [Errorf ''Unexpected number of deleted records %d for token'' aff]\<rparr>))"
  by (simp add: VerifyEmailToken_def sel add del LogError_def)

theorem C8_VerifyEmailToken_delete_only_logged_witness:
  "fst (VerifyEmailToken (Some Tx) ''tok1'' 1000 (world_S2\<lparr>faults := [False, False, False, True]\<rparr>))
     = Inr 1 \<and>
   logged (snd (VerifyEmailToken (Some Tx) ''tok1'' 1000
                  (world_S2\<lparr>faults := [False, False, False, True]\<rparr>))) = [ErrDriver] \<and>
   fst (VerifyEmailToken (Some Tx) ''tok1'' 1000
          (world_S2\<lparr>committed := (committed world_S2)\<lparr>email_verification_tokens :=
             [token_S2, token_S2]\<rparr>\<rparr>)) = Inr 1 \<and>
   logged (snd (VerifyEmailToken (Some Tx) ''tok1'' 1000
          (world_S2\<lparr>committed := (committed world_S2)\<lparr>email_verification_tokens :=
             [token_S2, token_S2]\<rparr>\<rparr>))) =
     [Errorf ''Unexpected number of deleted records %d for token'' 2]"
proof -
  define wf where "wf = world_S2\<lparr>faults := [False, False, False, True]\<rparr>"
  define wd where "wd = world_S2\<lparr>committed := (committed world_S2)\<lparr>email_verification_tokens :=
             [token_S2, token_S2]\<rparr>\<rparr>"
  note defs = world_S2_def world_of_def no_tables_def token_S2_def user_u_def
    QueryScan_def ExecCount_def AddEmail_def tx_run_def db_run_def next_fault_def tx_view_def
    sql_select_verification_token_def sql_restore_email_def sql_insert_email_def
    sql_delete_verification_token_def effect_def
  obtain w1 where sel: "QueryScan (Some Tx) (sql_select_verification_token ''tok1'' 1000) wf
                          = (Inr (1, ''a@x''), w1)"
    and w1: "w1 = wf\<lparr>faults := [False, False, True],
               pending := [effect (sql_select_verification_token ''tok1'' 1000)]\<rparr>"
    by (simp add: wf_def defs)
  obtain w2 where add: "AddEmail 1 ''a@x'' w1 = (None, w2)" and w2: "faults w2 = [True]"
    "logged w2 = []"
    by (simp add: w1 wf_def defs)
  obtain w3 where del: "ExecCount (Some Tx) (sql_delete_verification_token ''tok1'') w2
                          = (Inl ErrDriver, w3)" and w3: "logged w3 = logged w2"
    using w2 by (simp add: ExecCount_def tx_run_def next_fault_def)
  have f: "VerifyEmailToken (Some Tx) ''tok1'' 1000 wf = (Inr 1, w3\<lparr>logged := logged w3 @ [ErrDriver]\<rparr>)"
    using C8_VerifyEmailToken_delete_only_logged [OF sel add del] by simp
  obtain v1 where sel': "QueryScan (Some Tx) (sql_select_verification_token ''tok1'' 1000) wd
                          = (Inr (1, ''a@x''), v1)"
    and v1: "v1 = wd\<lparr>pending := [effect (sql_select_verification_token ''tok1'' 1000)]\<rparr>"
    by (simp add: wd_def defs)
  obtain v2 where add': "AddEmail 1 ''a@x'' v1 = (None, v2)"
    and v2: "v2 = v1\<lparr>committed := (committed v1)\<lparr>emails :=
                 [\<lparr>e_user_id = 1, e_email = ''a@x'', e_delete_on = None\<rparr>]\<rparr>\<rparr>"
    by (simp add: v1 wd_def defs)
  obtain v3 where del': "ExecCount (Some Tx) (sql_delete_verification_token ''tok1'') v2
                          = (Inr 2, v3)" and v3: "logged v3 = []"
    by (simp add: v2 v1 wd_def defs)
  have d: "VerifyEmailToken (Some Tx) ''tok1'' 1000 wd =
             (Inr 1, v3\<lparr>logged := logged v3 @
                [Errorf ''Unexpected number of deleted records %d for token'' 2]\<rparr>)"
    using C8_VerifyEmailToken_delete_only_logged [OF sel' add' del'] by simp
  show ?thesis
    using f d w3 w2 v3 unfolding wf_def wd_def by simp
qed


lemma tx_view_empty: "pending w = [] \<Longrightarrow> tx_view w = committed w"
  by (simp add: tx_view_def)

lemma AddEmail_frame:
  assumes ok: "faults w = []"
  shows "fst (AddEmail uid email w) = None"
    and "faults (snd (AddEmail uid email w)) = []"
    and "pending (snd (AddEmail uid email w)) = pending w"
    and "logged (snd (AddEmail uid email w)) = logged w"
    and "email_verification_tokens (committed (snd (AddEmail uid email w))) =
           email_verification_tokens (committed w)"
  using ok
  by (simp_all add: AddEmail_def ExecCount_def db_run_ok sql_restore_email_def
      sql_insert_email_def Let_def)

lemma effect_select_verification_token:
  "effect (sql_select_verification_token tok now) t = t"
  by (simp add: effect_def sql_select_verification_token_def)

lemma effect_delete_verification_token:
  "email_verification_tokens (effect (sql_delete_verification_token tok) t) =
     filter (\<lambda>r. vt_token r \<noteq> tok) (email_verification_tokens t)"
  by (simp add: effect_def sql_delete_verification_token_def)

lemma VerifyEmailToken_miss:
  assumes ok: "faults w = []"
    and none: "filter (\<lambda>r. vt_token r = tok) (email_verification_tokens (seen_by tx w)) = []"
  shows "fst (VerifyEmailToken tx tok now w) = Inl ErrTokenNotFound"
proof -
  have "filter (\<lambda>r. vt_token r = tok \<and> vt_expiry r \<ge> now)
          (email_verification_tokens (seen_by tx w)) = []"
    using none by (auto simp: filter_empty_conv)
  then have q: "sql_select_verification_token tok now (seen_by tx w) = Inr (seen_by tx w, [])"
    by (simp add: sql_select_verification_token_def)
  show ?thesis
  proof (cases tx)
    case None
    with q show ?thesis
      by (simp add: VerifyEmailToken_def QueryScan_def db_run_ok ok seen_by_def)
  next
    case (Some t)
    with q show ?thesis
      by (simp add: VerifyEmailToken_def QueryScan_def tx_run_ok ok seen_by_def)
  qed
qed

lemma VerifyEmailToken_post:
  assumes ok: "faults w = []" and fresh: "pending w = []"
    and success: "VerifyEmailToken tx tok now w = (Inr uid, w')"
  shows "faults w' = []"
    and "filter (\<lambda>r. vt_token r = tok) (email_verification_tokens (seen_by tx w')) = []"
proof -
  let ?sel = "sql_select_verification_token tok now"
  let ?del = "sql_delete_verification_token tok"
  let ?rows = "map (\<lambda>r. (vt_user_id r, vt_email r))
                 (filter (\<lambda>r. vt_token r = tok \<and> vt_expiry r \<ge> now)
                    (email_verification_tokens (committed w)))"
  have q: "?sel (committed w) = Inr (committed w, ?rows)"
    by (simp add: sql_select_verification_token_def)
  define w1 where "w1 = (case tx of None \<Rightarrow> w | Some _ \<Rightarrow> w\<lparr>pending := [effect ?sel]\<rparr>)"
  have scan: "QueryScan tx ?sel w = (case ?rows of [] \<Rightarrow> Inl ErrNoRows | r # _ \<Rightarrow> Inr r, w1)"
    by (cases tx; cases ?rows)
      (simp_all add: QueryScan_def db_run_ok tx_run_ok ok q tx_view_empty fresh w1_def)
  have ok1: "faults w1 = []" and com1: "committed w1 = committed w"
    using ok by (simp_all add: w1_def split: option.splits)
  obtain u e rest where rows: "?rows = (u, e) # rest"
    using success scan by (cases ?rows) (auto simp: VerifyEmailToken_def)
  define w2 where "w2 = snd (AddEmail u e w1)"
  have add: "AddEmail u e w1 = (None, w2)"
    using AddEmail_frame(1) [OF ok1, of u e] by (simp add: w2_def prod_eq_iff)
  have ok2: "faults w2 = []" and pen2: "pending w2 = pending w1"
    and tok2: "email_verification_tokens (committed w2) = email_verification_tokens (committed w1)"
    unfolding w2_def using AddEmail_frame [OF ok1] by simp_all
  have view2: "seen_by tx w2 = committed w2"
    by (cases tx)
      (simp_all add: seen_by_def tx_view_def pen2 w1_def effect_select_verification_token)
  obtain t' aff where d: "?del (committed w2) = Inr (t', aff)"
    and t': "email_verification_tokens t' =
               filter (\<lambda>r. vt_token r \<noteq> tok) (email_verification_tokens (committed w2))"
    by (simp add: sql_delete_verification_token_def)
  define w3 where "w3 = (case tx of None \<Rightarrow> w2\<lparr>committed := t'\<rparr>
                          | Some _ \<Rightarrow> w2\<lparr>pending := pending w2 @ [effect ?del]\<rparr>)"
  have exec: "ExecCount tx ?del w2 = (Inr aff, w3)"
    using view2
    by (cases tx) (simp_all add: ExecCount_def db_run_ok tx_run_ok ok2 d w3_def seen_by_def)
  have ok3: "faults w3 = []"
    using ok2 by (simp add: w3_def split: option.splits)
  have view3: "email_verification_tokens (seen_by tx w3) =
                 filter (\<lambda>r. vt_token r \<noteq> tok) (email_verification_tokens (committed w2))"
  proof (cases tx)
    case None
    then show ?thesis by (simp add: seen_by_def w3_def t')
  next
    case (Some t)
    then have "seen_by tx w3 = effect ?del (seen_by tx w2)"
      by (simp add: seen_by_def w3_def tx_view_def)
    then show ?thesis
      by (simp add: view2 effect_delete_verification_token)
  qed
  have res: "w' = w3 \<or> (\<exists>err. w' = LogError err w3)"
    using success by (auto simp: VerifyEmailToken_def scan rows add exec split: if_splits)
  then show "faults w' = []"
    using ok3 by (auto simp: LogError_def)
  have "seen_by tx (LogError err w3) = seen_by tx w3" for err
    by (simp add: seen_by_def LogError_def tx_view_def split: option.splits)
  with res have "seen_by tx w' = seen_by tx w3"
    by auto
  then show "filter (\<lambda>r. vt_token r = tok) (email_verification_tokens (seen_by tx w')) = []"
    by (simp add: view3 filter_empty_conv)
qed


lemma effect_select_login_user:
  "effect (sql_select_login_user name tok now) t = t"
  by (simp add: effect_def sql_select_login_user_def split: sum.splits)

lemma effect_delete_login_token:
  "email_login_tokens (effect (sql_delete_login_token tok) t) =
     filter (\<lambda>r. lt_token r \<noteq> tok) (email_login_tokens t)"
  by (simp add: effect_def sql_delete_login_token_def)

lemma sql_select_login_user_miss:
  assumes "filter (\<lambda>r. lt_token r = tok) (email_login_tokens t) = []"
  shows "sql_select_login_user name tok now t = Inr (t, [])"
proof -
  have "filter (\<lambda>r. lt_token r = tok \<and> lt_expiry r \<ge> now) (email_login_tokens t) = []"
    using assms by (auto simp: filter_empty_conv)
  then show ?thesis
    by (simp add: sql_select_login_user_def scalar_subquery_def)
qed

lemma TryUserLoginToken_miss:
  assumes ok: "faults w = []"
    and none: "filter (\<lambda>r. lt_token r = tok) (email_login_tokens (seen_by tx w)) = []"
  shows "fst (TryUserLoginToken tx tok name now w) = Inl keyshare_ErrUserNotFound"
proof (cases tx)
  case None
  with sql_select_login_user_miss [OF none] show ?thesis
    by (simp add: TryUserLoginToken_def QueryUser_def QueryScan_def db_run_ok ok seen_by_def)
next
  case (Some t)
  with sql_select_login_user_miss [OF none] show ?thesis
    by (simp add: TryUserLoginToken_def QueryUser_def QueryScan_def tx_run_ok ok seen_by_def)
qed

lemma TryUserLoginToken_run:
  assumes ok: "faults w = []" and fresh: "pending w = []"
  obtains err w' where "TryUserLoginToken tx tok name now w = (Inl err, w')"
  | uid rest t' w' where
      "sql_select_login_user name tok now (committed w) = Inr (committed w, uid # rest)"
      "sql_delete_login_token tok (committed w) = Inr (t', 1)"
      "TryUserLoginToken tx tok name now w = (Inr uid, w')"
      "faults w' = []" "seen_by tx w' = t'"
proof -
  let ?sel = "sql_select_login_user name tok now"
  let ?del = "sql_delete_login_token tok"
  define w1 where "w1 = (case tx of None \<Rightarrow> w | Some _ \<Rightarrow> w\<lparr>pending := [effect ?sel]\<rparr>)"
  have ok1: "faults w1 = []" and com1: "committed w1 = committed w"
    using ok by (simp_all add: w1_def split: option.splits)
  have view1: "seen_by tx w1 = committed w"
    by (cases tx) (simp_all add: seen_by_def tx_view_def w1_def effect_select_login_user)
  obtain t' aff where d: "?del (committed w) = Inr (t', aff)"
    by (simp add: sql_delete_login_token_def)
  define w3 where "w3 = (case tx of None \<Rightarrow> w1\<lparr>committed := t'\<rparr>
                          | Some _ \<Rightarrow> w1\<lparr>pending := pending w1 @ [effect ?del]\<rparr>)"
  have exec: "ExecCount tx ?del w1 = (Inr aff, w3)"
    using view1
    by (cases tx) (simp_all add: ExecCount_def db_run_ok tx_run_ok ok1 d w3_def seen_by_def)
  have ok3: "faults w3 = []"
    using ok1 by (simp add: w3_def split: option.splits)
  have view3: "seen_by tx w3 = t'"
  proof (cases tx)
    case None
    then show ?thesis by (simp add: seen_by_def w3_def)
  next
    case (Some t)
    then have "seen_by tx w3 = effect ?del (seen_by tx w1)"
      by (simp add: seen_by_def w3_def tx_view_def)
    then show ?thesis
      by (simp add: view1 effect_def d)
  qed
  show thesis
  proof (cases "?sel (committed w)")
    case (Inl err)
    then have "TryUserLoginToken tx tok name now w =
                 (Inl (if err = ErrNoRows then keyshare_ErrUserNotFound else err), w)"
      by (cases tx)
        (simp_all add: TryUserLoginToken_def QueryUser_def QueryScan_def db_run_ok tx_run_ok
          ok tx_view_empty fresh)
    then show thesis by (rule that(1))
  next
    case (Inr p)
    then obtain rows where q: "?sel (committed w) = Inr (committed w, rows)"
      by (auto simp: sql_select_login_user_def split: sum.splits)
    have scan: "QueryScan tx ?sel w = (case rows of [] \<Rightarrow> Inl ErrNoRows | r # _ \<Rightarrow> Inr r, w1)"
      by (cases tx; cases rows)
        (simp_all add: QueryScan_def db_run_ok tx_run_ok ok q tx_view_empty fresh w1_def)
    show thesis
    proof (cases rows)
      case Nil
      then have "TryUserLoginToken tx tok name now w = (Inl keyshare_ErrUserNotFound, w1)"
        by (simp add: TryUserLoginToken_def QueryUser_def scan)
      then show thesis by (rule that(1))
    next
      case (Cons uid rest)
      show thesis
      proof (cases "aff = 1")
        case True
        have "TryUserLoginToken tx tok name now w = (Inr uid, w3)"
          by (simp add: TryUserLoginToken_def QueryUser_def scan Cons exec True)
        with q Cons d True ok3 view3 show thesis
          by (intro that(2) [of uid rest t' w3]) simp_all
      next
        case False
        then have "TryUserLoginToken tx tok name now w =
          (Inl (Errorf ''Unexpected number of affected rows %d for token removal'' aff), w3)"
          by (simp add: TryUserLoginToken_def QueryUser_def scan Cons exec)
        then show thesis by (rule that(1))
      qed
    qed
  qed
qed

text \<open>
  Claim C5, as the code has it. In a run where no statement fails, started outside a
  transaction or at the start of one: after a successful \<^verbatim>\<open>VerifyEmailToken\<close> no row of
  the token is left for the caller to see, and a second \<^verbatim>\<open>VerifyEmailToken\<close> with the
  token returns \<^verbatim>\<open>ErrTokenNotFound\<close>; after a successful \<^verbatim>\<open>TryUserLoginToken\<close> no row of
  the login token is left, and a further \<^verbatim>\<open>TryUserLoginToken\<close> with the token returns
  \<^verbatim>\<open>keyshare.ErrUserNotFound\<close>; and \<^verbatim>\<open>TryUserLoginToken\<close> returns an error whenever the
  number of rows with the token is not 1.
\<close>

theorem C5_tokens_single_use:
  assumes ok: "faults w = []" and fresh: "pending w = []"
  shows "(VerifyEmailToken tx tok now w = (Inr uid, w') \<longrightarrow>
            filter (\<lambda>r. vt_token r = tok) (email_verification_tokens (seen_by tx w')) = [] \<and>
            fst (VerifyEmailToken tx tok now' w') = Inl ErrTokenNotFound) \<and>
         (TryUserLoginToken tx tok name now w = (Inr uid, w') \<longrightarrow>
            filter (\<lambda>r. lt_token r = tok) (email_login_tokens (committed w)) \<noteq> [] \<and>
            filter (\<lambda>r. lt_token r = tok) (email_login_tokens (seen_by tx w')) = [] \<and>
            fst (TryUserLoginToken tx tok name' now' w') = Inl keyshare_ErrUserNotFound) \<and>
         (int (length (filter (\<lambda>r. lt_token r = tok) (email_login_tokens (committed w)))) \<noteq> 1 \<longrightarrow>
            isl (fst (TryUserLoginToken tx tok name now w)))"
proof (intro conjI impI)
  assume v: "VerifyEmailToken tx tok now w = (Inr uid, w')"
  note post = VerifyEmailToken_post [OF ok fresh v]
  show "filter (\<lambda>r. vt_token r = tok) (email_verification_tokens (seen_by tx w')) = []"
    by (rule post(2))
  show "fst (VerifyEmailToken tx tok now' w') = Inl ErrTokenNotFound"
    using post by (rule VerifyEmailToken_miss)
next
  assume t: "TryUserLoginToken tx tok name now w = (Inr uid, w')"
  have "\<exists>t'. sql_delete_login_token tok (committed w) = Inr (t', 1) \<and>
             faults w' = [] \<and> seen_by tx w' = t'"
  proof (rule TryUserLoginToken_run [OF ok fresh, where tx = tx and tok = tok and name = name
        and now = now])
    fix err w1
    assume "TryUserLoginToken tx tok name now w = (Inl err, w1)"
    with t show ?thesis by simp
  next
    fix uid1 rest t' w1
    assume "sql_delete_login_token tok (committed w) = Inr (t', 1)"
      "TryUserLoginToken tx tok name now w = (Inr uid1, w1)"
      "faults w1 = []" "seen_by tx w1 = t'"
    with t show ?thesis by simp
  qed
  then obtain t' where
    d: "sql_delete_login_token tok (committed w) = Inr (t', 1)"
    and ok': "faults w' = []" and view: "seen_by tx w' = t'"
    by blast
  from d show "filter (\<lambda>r. lt_token r = tok) (email_login_tokens (committed w)) \<noteq> []"
    by (auto simp: sql_delete_login_token_def)
  from d have "email_login_tokens t' =
                 filter (\<lambda>r. lt_token r \<noteq> tok) (email_login_tokens (committed w))"
    by (auto simp: sql_delete_login_token_def)
  then show none: "filter (\<lambda>r. lt_token r = tok) (email_login_tokens (seen_by tx w')) = []"
    by (simp add: view filter_empty_conv)
  show "fst (TryUserLoginToken tx tok name' now' w') = Inl keyshare_ErrUserNotFound"
    using ok' none by (rule TryUserLoginToken_miss)
next
  assume n: "int (length (filter (\<lambda>r. lt_token r = tok) (email_login_tokens (committed w)))) \<noteq> 1"
  show "isl (fst (TryUserLoginToken tx tok name now w))"
  proof (rule TryUserLoginToken_run [OF ok fresh, where tx = tx and tok = tok and name = name
        and now = now])
    fix err w1
    assume "TryUserLoginToken tx tok name now w = (Inl err, w1)"
    then show ?thesis by simp
  next
    fix t'
    assume "sql_delete_login_token tok (committed w) = Inr (t', 1)"
    with n show ?thesis
      by (simp add: sql_delete_login_token_def)
  qed
qed


lemmas eval_defs = world_S2_def world_of_def no_tables_def token_S2_def user_u_def
    VerifyEmailToken_def TryUserLoginToken_def QueryUser_def
    QueryScan_def ExecCount_def AddEmail_def tx_run_def db_run_def next_fault_def tx_view_def
    sql_select_verification_token_def sql_restore_email_def sql_insert_email_def
    sql_delete_verification_token_def sql_select_login_user_def sql_delete_login_token_def
    scalar_subquery_def not_deleted_def effect_def LogError_def Rollback_def

lemma VerifyEmailToken_S2:
  "VerifyEmailToken (Some Tx) ''tok1'' 1000 world_S2 =
     (Inr 1, world_S2\<lparr>committed := (committed world_S2)\<lparr>emails :=
                [\<lparr>e_user_id = 1, e_email = ''a@x'', e_delete_on = None\<rparr>]\<rparr>,
              pending := [effect (sql_select_verification_token ''tok1'' 1000),
                          effect (sql_delete_verification_token ''tok1'')]\<rparr>)"
  by (simp add: world_S2_def world_of_def no_tables_def token_S2_def user_u_def
      VerifyEmailToken_def QueryScan_def ExecCount_def AddEmail_def tx_run_def db_run_def
      next_fault_def tx_view_def sql_select_verification_token_def sql_restore_email_def
      sql_insert_email_def sql_delete_verification_token_def
      effect_select_verification_token)

theorem C5_tokens_single_use_witness:
  "faults world_S2 = [] \<and> pending world_S2 = [] \<and>
   fst (VerifyEmailToken (Some Tx) ''tok1'' 1000 world_S2) = Inr 1 \<and>
   fst (VerifyEmailToken (Some Tx) ''tok1'' 1001
          (snd (VerifyEmailToken (Some Tx) ''tok1'' 1000 world_S2))) = Inl ErrTokenNotFound \<and>
   faults world_S3 = [] \<and> pending world_S3 = [] \<and>
   fst (TryUserLoginToken (Some Tx) ''tok2'' ''bob'' 1000 world_S3) = Inr 2 \<and>
   fst (TryUserLoginToken (Some Tx) ''tok2'' ''bob'' 1001
          (snd (TryUserLoginToken (Some Tx) ''tok2'' ''bob'' 1000 world_S3)))
     = Inl keyshare_ErrUserNotFound \<and>
   isl (fst (TryUserLoginToken (Some Tx) ''tok2'' ''bob'' 1000 world_S2))"
proof -
  have ok: "faults world_S2 = []" "pending world_S2 = []" "faults world_S3 = []"
    "pending world_S3 = []"
    by (simp_all add: world_S2_def world_S3_def world_of_def)
  have v: "fst (VerifyEmailToken (Some Tx) ''tok1'' 1000 world_S2) = Inr 1"
    by (simp add: VerifyEmailToken_S2)
  have t: "fst (TryUserLoginToken (Some Tx) ''tok2'' ''bob'' 1000 world_S3) = Inr 2"
    by (simp add: world_S3_def eval_defs)
  have n: "int (length (filter (\<lambda>r. lt_token r = ''tok2'')
             (email_login_tokens (committed world_S2)))) \<noteq> 1"
    by (simp add: world_S2_def world_of_def no_tables_def)
  have v': "VerifyEmailToken (Some Tx) ''tok1'' 1000 world_S2 =
              (Inr 1, snd (VerifyEmailToken (Some Tx) ''tok1'' 1000 world_S2))"
    using v by (simp add: prod_eq_iff)
  have t': "TryUserLoginToken (Some Tx) ''tok2'' ''bob'' 1000 world_S3 =
              (Inr 2, snd (TryUserLoginToken (Some Tx) ''tok2'' ''bob'' 1000 world_S3))"
    using t by (simp add: prod_eq_iff)
  note a = C5_tokens_single_use [OF ok(1,2), where tx = "Some Tx" and tok = "''tok1''"
      and now = 1000 and now' = 1001 and uid = 1
      and w' = "snd (VerifyEmailToken (Some Tx) ''tok1'' 1000 world_S2)"]
  note b = C5_tokens_single_use [OF ok(3,4), where tx = "Some Tx" and tok = "''tok2''"
      and name = "''bob''" and name' = "''bob''" and now = 1000 and now' = 1001 and uid = 2
      and w' = "snd (TryUserLoginToken (Some Tx) ''tok2'' ''bob'' 1000 world_S3)"]
  note c = C5_tokens_single_use [OF ok(1,2), where tx = "Some Tx" and tok = "''tok2''"
      and name = "''bob''" and now = 1000]
  from a v' have 1: "fst (VerifyEmailToken (Some Tx) ''tok1'' 1001
          (snd (VerifyEmailToken (Some Tx) ''tok1'' 1000 world_S2))) = Inl ErrTokenNotFound"
    by blast
  from b t' have 2: "fst (TryUserLoginToken (Some Tx) ''tok2'' ''bob'' 1001
          (snd (TryUserLoginToken (Some Tx) ''tok2'' ''bob'' 1000 world_S3)))
     = Inl keyshare_ErrUserNotFound"
    by blast
  from c n have 3: "isl (fst (TryUserLoginToken (Some Tx) ''tok2'' ''bob'' 1000 world_S2))"
    by blast
  show ?thesis
    using ok v t 1 2 3 by simp
qed

text \<open>
  The claim as it was stated fails when the \<^verbatim>\<open>DELETE\<close> of \<^verbatim>\<open>VerifyEmailToken\<close> returns an
  error: the call succeeds all the same (claim C8), the token's row stays, and after the
  transaction is rolled back a second \<^verbatim>\<open>VerifyEmailToken\<close> with the token succeeds again.
\<close>

theorem C5_failed_delete_counterexample:
  "fst (VerifyEmailToken (Some Tx) ''tok1'' 1000 world_S2_delete_fails) = Inr 1 \<and>
   email_verification_tokens
     (committed (Rollback (snd (VerifyEmailToken (Some Tx) ''tok1'' 1000 world_S2_delete_fails))))
     = [token_S2] \<and>
   fst (VerifyEmailToken (Some Tx) ''tok1'' 1001
          (Rollback (snd (VerifyEmailToken (Some Tx) ''tok1'' 1000 world_S2_delete_fails))))
     = Inr 1 \<and>
   fst (VerifyEmailToken (Some Tx) ''tok1'' 1001
          (Rollback (snd (VerifyEmailToken (Some Tx) ''tok1'' 1000 world_S2_delete_fails))))
     \<noteq> Inl ErrTokenNotFound"
  by (simp add: world_S2_delete_fails_def eval_defs)

text \<open>
  Claim C6 does not hold of the code: \<^verbatim>\<open>VerifyEmailToken\<close> calls \<^verbatim>\<open>AddEmail\<close>, which runs its
  statements on the database and not on the transaction. In the spec's scenario S2 the
  address is committed as soon as \<^verbatim>\<open>VerifyEmailToken\<close> returns, while the \<^verbatim>\<open>DELETE\<close> of
  the token is still pending; rolling the transaction back keeps the address and the
  token, and the token can be redeemed again.
\<close>

theorem C6_AddEmail_outside_transaction:
  "fst (VerifyEmailToken (Some Tx) ''tok1'' 1000 world_S2) = Inr 1 \<and>
   emails (committed (snd (VerifyEmailToken (Some Tx) ''tok1'' 1000 world_S2))) =
     [\<lparr>e_user_id = 1, e_email = ''a@x'', e_delete_on = None\<rparr>] \<and>
   emails (committed (Rollback (snd (VerifyEmailToken (Some Tx) ''tok1'' 1000 world_S2)))) =
     [\<lparr>e_user_id = 1, e_email = ''a@x'', e_delete_on = None\<rparr>] \<and>
   email_verification_tokens
     (committed (Rollback (snd (VerifyEmailToken (Some Tx) ''tok1'' 1000 world_S2)))) =
     [token_S2] \<and>
   fst (VerifyEmailToken (Some Tx) ''tok1'' 1001
          (Rollback (snd (VerifyEmailToken (Some Tx) ''tok1'' 1000 world_S2)))) = Inr 1"
  by (simp add: VerifyEmailToken_S2 Rollback_def)
    (simp add: eval_defs)

section \<open>The console's sessions\<close>

lemma handleCheckSession_anonymous:
  assumes "store s tok = Some session" "\<not> expiry session < now" "userID session = None"
  shows "handleCheckSession (Some tok) now s =
           (\<lparr>body = WriteString ''expired'', cookie = None\<rparr>,
            s\<lparr>store := (store s)(tok \<mapsto> session\<lparr>expiry := now + SessionLifetime s * Second\<rparr>)\<rparr>)"
  using assms
  by (simp add: handleCheckSession_def sessionFromCookie_def store_get_def Let_def)

text \<open>
  Claim C2 does not hold of the code. In the spec's scenario S6 the disclosure callback
  reports an invalid proof and parks \<^verbatim>\<open>ErrorInvalidProofs\<close> in the anonymous session. The
  next \<^verbatim>\<open>/checksession\<close> returns "expired" and leaves the pending error where it is: the
  handler returns on \<^verbatim>\<open>session.userID == nil\<close> before it looks at \<^verbatim>\<open>pendingError\<close>.
\<close>

theorem C2_handleCheckSession_expired_first:
  "(case processLoginIrmaSessionResult ''s1'' result_invalid (1000 * Second) 1000 server_S6 of
      None \<Rightarrow> False
    | Some s \<Rightarrow>
        map_option userID (store s ''s1'') = Some None \<and>
        map_option pendingError (store s ''s1'') = Some (Some ErrorInvalidProofs) \<and>
        body (fst (handleCheckSession (Some ''s1'') (1001 * Second) s)) = WriteString ''expired'' \<and>
        map_option pendingError
          (store (snd (handleCheckSession (Some ''s1'') (1001 * Second) s)) ''s1'')
          = Some (Some ErrorInvalidProofs))"
  by (simp add: processLoginIrmaSessionResult_def handleCheckSession_def sessionFromCookie_def
      store_get_def set_session_def server_S6_def session_S6_def result_invalid_def Second_def
      Let_def)


lemma store_get_none:
  "fst (store_get tok now s) = None \<Longrightarrow> store_get tok now s = (None, s)"
  by (auto simp: store_get_def Let_def split: option.splits if_splits)

lemma store_get_expired:
  "store s tok = Some session \<Longrightarrow> expiry session < now \<Longrightarrow> store_get tok now s = (None, s)"
  by (simp add: store_get_def)

text \<open>
  The paths of the IRMA login's callback. When the session is missing or expired, nothing
  changes; when the disclosure did not complete, nothing is written to the session; on a
  completed disclosure, an invalid proof writes \<^verbatim>\<open>ErrorInvalidProofs\<close>, an unknown user
  \<^verbatim>\<open>ErrorUserNotRegistered\<close> and any other error of the lookup \<^verbatim>\<open>ErrorInternal\<close> with its
  text, three different kinds; and a valid proof of a user that \<^verbatim>\<open>UserID\<close> finds ends in
  the panic of \<^verbatim>\<open>SetSeen\<close>.
\<close>

lemma SetSeen_nil: "SetSeen None uid now w = None"
  by (simp add: SetSeen_def)

lemma processLoginIrmaSessionResult_paths:
  "(fst (store_get tok now1 s) = None \<longrightarrow>
      processLoginIrmaSessionResult tok result now1 now2 s = Some s) \<and>
   (store s tok = Some session \<and> expiry session < now1 \<longrightarrow>
      processLoginIrmaSessionResult tok result now1 now2 s = Some s) \<and>
   (store_get tok now1 s = (Some session, s1) \<and> Status result \<noteq> StatusDone \<longrightarrow>
      processLoginIrmaSessionResult tok result now1 now2 s = Some s1) \<and>
   (store_get tok now1 s = (Some session, s1) \<and> Status result = StatusDone \<longrightarrow>
      (ProofStatus result \<noteq> ProofStatusValid \<longrightarrow>
         processLoginIrmaSessionResult tok result now1 now2 s =
           Some (set_session tok
                   (session\<lparr>pendingError := Some ErrorInvalidProofs,
                            pendingErrorMessage := Text []\<rparr>) s1)) \<and>
      (ProofStatus result = ProofStatusValid \<and> Disclosed result = (Some name # attrs) # cons \<longrightarrow>
         (UserID name (db s1) = (Inl keyshare_ErrUserNotFound, w1) \<longrightarrow>
            processLoginIrmaSessionResult tok result now1 now2 s =
              Some (set_session tok
                      (session\<lparr>pendingError := Some ErrorUserNotRegistered,
                               pendingErrorMessage := Text []\<rparr>) (s1\<lparr>db := w1\<rparr>))) \<and>
         (UserID name (db s1) = (Inl err, w1) \<and> err \<noteq> keyshare_ErrUserNotFound \<longrightarrow>
            processLoginIrmaSessionResult tok result now1 now2 s =
              Some (set_session tok
                      (session\<lparr>pendingError := Some ErrorInternal,
                               pendingErrorMessage := Error_of err\<rparr>) (s1\<lparr>db := w1\<rparr>))) \<and>
         (UserID name (db s1) = (Inr uid, w1) \<longrightarrow>
            processLoginIrmaSessionResult tok result now1 now2 s = None))) \<and>
   ErrorInvalidProofs \<noteq> ErrorUserNotRegistered \<and> ErrorInvalidProofs \<noteq> ErrorInternal \<and>
   ErrorUserNotRegistered \<noteq> ErrorInternal"
  by (simp add: processLoginIrmaSessionResult_def store_get_none store_get_expired SetSeen_nil)

text \<open>
  Claim C9 does not hold of the code. In the spec's scenario S6 with a valid proof of the
  user \<open>u\<close>, whom \<^verbatim>\<open>UserID\<close> resolves to the id 1, the callback calls
  \<^verbatim>\<open>s.db.SetSeen(nil, id)\<close>: \<^verbatim>\<open>SetSeen\<close> panics on the \<^verbatim>\<open>nil\<close> interface, no \<^verbatim>\<open>UPDATE\<close> of
  \<^verbatim>\<open>last_seen\<close> runs, and the callback does not return. With a transaction, as
  \<^verbatim>\<open>processTokenLogin\<close> calls it, \<^verbatim>\<open>SetSeen\<close> does update \<^verbatim>\<open>last_seen\<close>.
\<close>

theorem C9_valid_login_panics:
  "Status (result_valid ''u'') = StatusDone \<and>
   ProofStatus (result_valid ''u'') = ProofStatusValid \<and>
   map u_last_seen (users (committed (db server_S6))) = [900] \<and>
   fst (UserID ''u'' (db server_S6)) = Inr 1 \<and>
   SetSeen None 1 1000 (db server_S6) = None \<and>
   processLoginIrmaSessionResult ''s1'' (result_valid ''u'') (1000 * Second) 1000 server_S6 = None \<and>
   map_option fst (SetSeen (Some Tx) 1 1000 (db server_S6)) = Some None \<and>
   map_option (\<lambda>r. map u_last_seen (users (tx_view (snd r))))
     (SetSeen (Some Tx) 1 1000 (db server_S6)) = Some [1000]"
  by (simp add: processLoginIrmaSessionResult_def store_get_def set_session_def SetSeen_def
      UserID_def QueryUser_def QueryScan_def ExecUser_def ExecCount_def db_run_def tx_run_def
      next_fault_def tx_view_def effect_def sql_select_user_id_def sql_set_seen_def
      result_valid_def server_S6_def session_S6_def world_S1_def world_of_def no_tables_def
      user_u_def Second_def Let_def)

section \<open>Lists in responses\<close>

text \<open>
  Claim C10. Whatever the request and the state, \<^verbatim>\<open>GET /user\<close> never writes a user
  information with \<^verbatim>\<open>null\<close> for the e-mail addresses, and \<^verbatim>\<open>GET /user/logs/{offset}\<close> never
  writes \<^verbatim>\<open>null\<close> for the entries, called directly or behind \<open>sessionMiddleware\<close>; and
  when the queries do not fail, a user with no active address gets the empty array, and a
  window with no entry is the empty array.
\<close>

theorem C10_no_null_list:
  "body (fst (handleUserInfo now1 now2 tok session s)) \<noteq> WriteJson (JsonUserInformation n JsonNull d) \<and>
   body (fst (sessionMiddleware (handleUserInfo now1 now2) c now s))
     \<noteq> WriteJson (JsonUserInformation n JsonNull d) \<and>
   body (fst (handleGetLogs offset now2 tok session s)) \<noteq> WriteJson (JsonLogEntries JsonNull) \<and>
   body (fst (sessionMiddleware (handleGetLogs offset now2) c now s))
     \<noteq> WriteJson (JsonLogEntries JsonNull) \<and>
   (userID session = Some uid \<and> faults (db s) = [] \<and>
    filter (\<lambda>r. u_id r = uid) (users (committed (db s))) = row # rest \<and>
    filter (\<lambda>r. e_user_id r = uid \<and> not_deleted now1 (e_delete_on r))
      (emails (committed (db s))) = [] \<longrightarrow>
      body (fst (handleUserInfo now1 now2 tok session s)) =
        WriteJson (JsonUserInformation (u_username row) (JsonArray []) (u_coredata row = None))) \<and>
   (userID session = Some uid \<and> faults (db s) = [] \<and> 0 \<le> off \<and>
    take 11 (drop (nat off) (sort_key (\<lambda>r. - le_time r)
      (filter (\<lambda>r. le_user_id r = uid) (log_entry_records (committed (db s)))))) = [] \<longrightarrow>
      body (fst (handleGetLogs (Inr off) now2 tok session s)) =
        WriteJson (JsonLogEntries (JsonArray [])))"
proof (intro conjI impI)
  show u: "body (fst (handleUserInfo now1 now2 tok session s))
             \<noteq> WriteJson (JsonUserInformation n JsonNull d)" for tok session s
    by (auto simp: handleUserInfo_def marshal_UserInformation_def marshal_slice_def Let_def
        split: option.splits sum.splits prod.splits)
  show l: "body (fst (handleGetLogs offset now2 tok session s))
             \<noteq> WriteJson (JsonLogEntries JsonNull)" for tok session s
    by (auto simp: handleGetLogs_def marshal_slice_def Let_def
        split: option.splits sum.splits prod.splits)
  show "body (fst (sessionMiddleware (handleUserInfo now1 now2) c now s))
          \<noteq> WriteJson (JsonUserInformation n JsonNull d)"
    using u by (auto simp: sessionMiddleware_def split: option.splits prod.splits)
  show "body (fst (sessionMiddleware (handleGetLogs offset now2) c now s))
          \<noteq> WriteJson (JsonLogEntries JsonNull)"
    using l by (auto simp: sessionMiddleware_def split: option.splits prod.splits)
next
  assume a: "userID session = Some uid \<and> faults (db s) = [] \<and>
    filter (\<lambda>r. u_id r = uid) (users (committed (db s))) = row # rest \<and>
    filter (\<lambda>r. e_user_id r = uid \<and> not_deleted now1 (e_delete_on r))
      (emails (committed (db s))) = []"
  then have ok: "faults (db s) = []" by blast
  have q1: "sql_select_user_information uid (committed (db s)) =
              Inr (committed (db s), (u_username row, u_language row, u_coredata row = None) #
                     map (\<lambda>r. (u_username r, u_language r, u_coredata r = None)) rest)"
    using a by (simp add: sql_select_user_information_def)
  have q2: "sql_select_emails uid now1 (committed (db s)) = Inr (committed (db s), [])"
    using a by (simp add: sql_select_emails_def)
  have "UserInformation uid now1 (db s) =
          (Inr (UserInformation_zero\<lparr>InfoUsername := u_username row, language := u_language row,
                  DeleteInProgress := u_coredata row = None\<rparr>), db s)"
    by (simp add: UserInformation_def QueryUser_def QueryScan_def QueryIterate_def db_run_ok ok
        q1 q2)
  with a show "body (fst (handleUserInfo now1 now2 tok session s)) =
        WriteJson (JsonUserInformation (u_username row) (JsonArray []) (u_coredata row = None))"
    by (simp add: handleUserInfo_def UserInformation_zero_def marshal_UserInformation_def
        marshal_slice_def)
next
  assume a: "userID session = Some uid \<and> faults (db s) = [] \<and> 0 \<le> off \<and>
    take 11 (drop (nat off) (sort_key (\<lambda>r. - le_time r)
      (filter (\<lambda>r. le_user_id r = uid) (log_entry_records (committed (db s)))))) = []"
  then have ok: "faults (db s) = []" by blast
  have q: "sql_select_logs uid off 11 (committed (db s)) = Inr (committed (db s), [])"
    using a by (simp add: sql_select_logs_def)
  have "Logs uid off 11 (db s) = (Inr None, db s)"
    by (simp add: Logs_def QueryIterate_def db_run_ok ok q)
  with a show "body (fst (handleGetLogs (Inr off) now2 tok session s)) =
        WriteJson (JsonLogEntries (JsonArray []))"
    by (simp add: handleGetLogs_def marshal_slice_def)
qed


theorem C10_no_null_list_witness:
  "userID session_user = Some 1 \<and> faults (db server_S6) = [] \<and>
   filter (\<lambda>r. u_id r = 1) (users (committed (db server_S6))) = [user_u] \<and>
   emails (committed (db server_S6)) = [] \<and> log_entry_records (committed (db server_S6)) = [] \<and>
   body (fst (handleUserInfo 1000 (1000 * Second) ''s1'' session_user server_S6)) =
     WriteJson (JsonUserInformation ''u'' (JsonArray []) False) \<and>
   body (fst (handleGetLogs (Inr 0) (1000 * Second) ''s1'' session_user server_S6)) =
     WriteJson (JsonLogEntries (JsonArray []))"
proof -
  have h: "userID session_user = Some 1" "faults (db server_S6) = []"
    "filter (\<lambda>r. u_id r = 1) (users (committed (db server_S6))) = [user_u]"
    "emails (committed (db server_S6)) = []" "log_entry_records (committed (db server_S6)) = []"
    by (simp_all add: session_user_def session_S6_def server_S6_def world_S1_def world_of_def
        no_tables_def user_u_def)
  have u: "u_username user_u = ''u''" "u_coredata user_u \<noteq> None"
    by (simp_all add: user_u_def)
  note c10 = C10_no_null_list [where session = session_user and s = server_S6 and uid = 1
      and row = user_u and rest = "[]" and ?now1.0 = 1000 and ?now2.0 = "1000 * Second"
      and tok = "''s1''" and off = 0]
  from c10 h u have a: "body (fst (handleUserInfo 1000 (1000 * Second) ''s1'' session_user server_S6)) =
     WriteJson (JsonUserInformation ''u'' (JsonArray []) False)"
    by simp
  from c10 h have b: "body (fst (handleGetLogs (Inr 0) (1000 * Second) ''s1'' session_user server_S6)) =
     WriteJson (JsonLogEntries (JsonArray []))"
    by simp
  show ?thesis
    using h a b by simp
qed

end
